theory Spec2Isabelle
  imports Complex_Main
begin

section \<open>Python values used by the client\<close>

text \<open>
  A Python \<open>str\<close> is a sequence of Unicode code points, so a string is a list of code
  points; \<open>str\<close> turns an ASCII literal into one. Lengths, indices and slices count code
  points, as Python's do.
\<close>

type_synonym pystr = "nat list"

definition str :: "string \<Rightarrow> pystr" where
  "str s = map of_char s"

text \<open>
  A float is observed by the client in three ways only: its truth value, its \<open>repr\<close>
  (in an f-string) and its JSON rendering. The model keeps those three observations.
\<close>

datatype pyfloat = PyFloat (float_nonzero: bool) (float_repr: pystr) (float_json: pystr)

text \<open>
  What \<open>json.loads\<close> returns: \<open>None\<close>, \<open>bool\<close>, \<open>int\<close>, \<open>float\<close>, \<open>str\<close>, \<open>list\<close>
  or \<open>dict\<close>. A \<open>dict\<close> is its list of items in insertion order. \<open>JNull\<close> is Python's
  \<open>None\<close>: a function that returns \<open>None\<close> returns \<open>JNull\<close>.
\<close>

datatype json =
    JNull
  | JBool bool
  | JInt int
  | JFloat pyfloat
  | JStr pystr
  | JArr "json list"
  | JObj "(pystr \<times> json) list"

text \<open>The exceptions (all subclasses of \<open>Exception\<close>) that the modelled code can meet.\<close>

datatype pyexn =
    TimeoutError
  | ClientError
  | JSONDecodeError
  | TypeError
  | AttributeError
  | KeyError
  | IndexError
  | ValueError
  | RecursionError

text \<open>
  Library behaviour the repository relies on and does not define: \<open>json.loads\<close>,
  \<open>str(e)\<close> of an exception and \<open>repr\<close> of a \<open>str\<close>. They are parameters of the model.
  \<open>json.loads\<close> returns the decoded value or raises: \<open>JSONDecodeError\<close> on text that is
  not JSON, and other exceptions on text that is (\<open>ValueError\<close> for an integer literal
  longer than the interpreter's digit limit, \<open>RecursionError\<close> for nesting that is too
  deep).
\<close>

record pylib =
  json_loads :: "pystr \<Rightarrow> pyexn + json"
  exn_str :: "pyexn \<Rightarrow> pystr"
  repr_str :: "pystr \<Rightarrow> pystr"

text \<open>Truth value of a decoded value (\<open>if x:\<close>, \<open>not x\<close>).\<close>

fun truthy :: "json \<Rightarrow> bool" where
  "truthy JNull = False"
| "truthy (JBool b) = b"
| "truthy (JInt i) = (i \<noteq> 0)"
| "truthy (JFloat f) = float_nonzero f"
| "truthy (JStr s) = (s \<noteq> [])"
| "truthy (JArr xs) = (xs \<noteq> [])"
| "truthy (JObj kvs) = (kvs \<noteq> [])"

text \<open>Truth value of an optional string attribute (\<open>None\<close> or a \<open>str\<close>).\<close>

fun truthy_opt :: "pystr option \<Rightarrow> bool" where
  "truthy_opt None = False"
| "truthy_opt (Some s) = (s \<noteq> [])"

subsection \<open>String operations\<close>

definition startswith :: "pystr \<Rightarrow> pystr \<Rightarrow> bool" where
  "startswith s p = (take (length p) s = p)"

text \<open>\<open>sub in s\<close> on strings: \<open>sub\<close> occurs in \<open>s\<close> as a contiguous run.\<close>

fun contains :: "pystr \<Rightarrow> pystr \<Rightarrow> bool" where
  "contains sub [] = (sub = [])"
| "contains sub (c # cs) = (startswith (c # cs) sub \<or> contains sub cs)"

text \<open>\<open>str.isspace\<close> on one code point (the code points Python's \<open>strip()\<close> removes).\<close>

definition is_space :: "nat \<Rightarrow> bool" where
  "is_space c = ((9 \<le> c \<and> c \<le> 13) \<or> (28 \<le> c \<and> c \<le> 32) \<or> c = 133 \<or> c = 160
     \<or> c = 5760 \<or> (8192 \<le> c \<and> c \<le> 8202) \<or> c = 8232 \<or> c = 8233 \<or> c = 8239
     \<or> c = 8287 \<or> c = 12288)"

definition strip :: "pystr \<Rightarrow> pystr" where
  "strip s = rev (dropWhile is_space (rev (dropWhile is_space s)))"

text \<open>\<open>s.split(sep)\<close> for a one-character separator.\<close>

fun split_char :: "nat \<Rightarrow> pystr \<Rightarrow> pystr list" where
  "split_char sep [] = [[]]"
| "split_char sep (c # cs) =
     (if c = sep then [] # split_char sep cs
      else (case split_char sep cs of
              [] \<Rightarrow> [[c]]
            | w # ws \<Rightarrow> (c # w) # ws))"

text \<open>\<open>s.split(sep, 1)\<close>: one cut at the first occurrence of \<open>sep\<close>, none when absent.\<close>

fun split_once :: "pystr \<Rightarrow> pystr \<Rightarrow> pystr list" where
  "split_once sep [] = [[]]"
| "split_once sep (c # cs) =
     (if startswith (c # cs) sep then [[], drop (length sep) (c # cs)]
      else (case split_once sep cs of
              [] \<Rightarrow> [[c]]
            | w # ws \<Rightarrow> (c # w) # ws))"

text \<open>\<open>xs[i]\<close> for a non-negative index: \<open>IndexError\<close> out of range.\<close>

definition item :: "'a list \<Rightarrow> nat \<Rightarrow> pyexn + 'a" where
  "item xs i = (if i < length xs then Inr (xs ! i) else Inl IndexError)"

text \<open>\<open>s.find(c)\<close> for one character: the first index, or \<open>-1\<close>.\<close>

fun find_from :: "nat \<Rightarrow> pystr \<Rightarrow> int \<Rightarrow> int" where
  "find_from c [] i = -1"
| "find_from c (d # ds) i = (if d = c then i else find_from c ds (i + 1))"

definition find_char :: "pystr \<Rightarrow> nat \<Rightarrow> int" where
  "find_char s c = find_from c s 0"

text \<open>Decimal text of an integer (\<open>str(n)\<close>).\<close>

fun dec :: "nat \<Rightarrow> pystr" where
  "dec n = (if n < 10 then [48 + n] else dec (n div 10) @ [48 + n mod 10])"

definition str_int :: "int \<Rightarrow> pystr" where
  "str_int i = (if i < 0 then 45 # dec (nat (- i)) else dec (nat i))"

definition join :: "pystr \<Rightarrow> pystr list \<Rightarrow> pystr" where
  "join sep parts = concat (case parts of [] \<Rightarrow> [] | p # ps \<Rightarrow> p # map (\<lambda>q. sep @ q) ps)"

subsection \<open>Operations on decoded values\<close>

text \<open>\<open>key in v\<close> for a string key: membership in a \<open>dict\<close> or \<open>list\<close>, substring test
  on a \<open>str\<close>, \<open>TypeError\<close> on anything else.\<close>

fun py_in :: "pystr \<Rightarrow> json \<Rightarrow> pyexn + bool" where
  "py_in k (JObj kvs) = Inr (k \<in> set (map fst kvs))"
| "py_in k (JArr xs) = Inr (JStr k \<in> set xs)"
| "py_in k (JStr s) = Inr (contains k s)"
| "py_in k v = Inl TypeError"

text \<open>\<open>v[key]\<close> for a string key.\<close>

fun getitem :: "json \<Rightarrow> pystr \<Rightarrow> pyexn + json" where
  "getitem (JObj kvs) k = (case map_of kvs k of Some x \<Rightarrow> Inr x | None \<Rightarrow> Inl KeyError)"
| "getitem v k = Inl TypeError"

text \<open>\<open>v.get(key, default)\<close>: only a \<open>dict\<close> has the method.\<close>

fun py_get :: "json \<Rightarrow> pystr \<Rightarrow> json \<Rightarrow> pyexn + json" where
  "py_get (JObj kvs) k d = Inr (case map_of kvs k of Some x \<Rightarrow> x | None \<Rightarrow> d)"
| "py_get v k d = Inl AttributeError"

text \<open>\<open>len(v)\<close>, the elements a \<open>for\<close> loop visits, and \<open>v.keys()\<close>.\<close>

fun py_len :: "json \<Rightarrow> pyexn + nat" where
  "py_len (JStr s) = Inr (length s)"
| "py_len (JArr xs) = Inr (length xs)"
| "py_len (JObj kvs) = Inr (length kvs)"
| "py_len v = Inl TypeError"

fun py_iter :: "json \<Rightarrow> pyexn + json list" where
  "py_iter (JStr s) = Inr (map (\<lambda>c. JStr [c]) s)"
| "py_iter (JArr xs) = Inr xs"
| "py_iter (JObj kvs) = Inr (map (\<lambda>kv. JStr (fst kv)) kvs)"
| "py_iter v = Inl TypeError"

fun py_keys :: "json \<Rightarrow> pyexn + pystr list" where
  "py_keys (JObj kvs) = Inr (map fst kvs)"
| "py_keys v = Inl AttributeError"

subsection \<open>Formatting: f-strings and \<open>json.dumps(..., indent=2, ensure_ascii=False)\<close>\<close>

text \<open>\<open>str(v)\<close> and \<open>repr(v)\<close> of a decoded value, as an f-string field renders it.\<close>

fun py_repr :: "pylib \<Rightarrow> json \<Rightarrow> pystr"
  and py_repr_items :: "pylib \<Rightarrow> json list \<Rightarrow> pystr list"
  and py_repr_members :: "pylib \<Rightarrow> (pystr \<times> json) list \<Rightarrow> pystr list" where
  "py_repr lib JNull = str ''None''"
| "py_repr lib (JBool b) = (if b then str ''True'' else str ''False'')"
| "py_repr lib (JInt i) = str_int i"
| "py_repr lib (JFloat f) = float_repr f"
| "py_repr lib (JStr s) = repr_str lib s"
| "py_repr lib (JArr xs) = str ''['' @ join (str '', '') (py_repr_items lib xs) @ str '']''"
| "py_repr lib (JObj kvs) = str ''{'' @ join (str '', '') (py_repr_members lib kvs) @ str ''}''"
| "py_repr_items lib [] = []"
| "py_repr_items lib (x # xs) = py_repr lib x # py_repr_items lib xs"
| "py_repr_members lib [] = []"
| "py_repr_members lib (kv # kvs) =
     (repr_str lib (fst kv) @ str '': '' @ py_repr lib (snd kv)) # py_repr_members lib kvs"

definition py_format :: "pylib \<Rightarrow> json \<Rightarrow> pystr" where
  "py_format lib v = (case v of JStr s \<Rightarrow> s | _ \<Rightarrow> py_repr lib v)"

text \<open>A JSON string literal with \<open>ensure_ascii=False\<close>: only the quote, the backslash
  and the control characters below U+0020 are escaped.\<close>

definition hex_digit :: "nat \<Rightarrow> nat" where
  "hex_digit d = (if d < 10 then 48 + d else 87 + d)"

definition escape_char :: "nat \<Rightarrow> pystr" where
  "escape_char c =
     (if c = 34 then [92, 34]
      else if c = 92 then [92, 92]
      else if c = 10 then [92, 110]
      else if c = 13 then [92, 114]
      else if c = 9 then [92, 116]
      else if c = 8 then [92, 98]
      else if c = 12 then [92, 102]
      else if c < 32 then [92, 117, 48, 48, hex_digit (c div 16), hex_digit (c mod 16)]
      else [c])"

definition encode_str :: "pystr \<Rightarrow> pystr" where
  "encode_str s = [34] @ concat (map escape_char s) @ [34]"

definition newline_indent :: "nat \<Rightarrow> pystr" where
  "newline_indent level = 10 # replicate (2 * level) 32"

fun dumps_at :: "nat \<Rightarrow> json \<Rightarrow> pystr"
  and dumps_items :: "nat \<Rightarrow> json list \<Rightarrow> pystr list"
  and dumps_members :: "nat \<Rightarrow> (pystr \<times> json) list \<Rightarrow> pystr list" where
  "dumps_at level JNull = str ''null''"
| "dumps_at level (JBool b) = (if b then str ''true'' else str ''false'')"
| "dumps_at level (JInt i) = str_int i"
| "dumps_at level (JFloat f) = float_json f"
| "dumps_at level (JStr s) = encode_str s"
| "dumps_at level (JArr xs) =
     (if xs = [] then str ''[]''
      else str ''['' @ newline_indent (level + 1)
           @ join (str '','' @ newline_indent (level + 1)) (dumps_items (level + 1) xs)
           @ newline_indent level @ str '']'')"
| "dumps_at level (JObj kvs) =
     (if kvs = [] then str ''{}''
      else str ''{'' @ newline_indent (level + 1)
           @ join (str '','' @ newline_indent (level + 1)) (dumps_members (level + 1) kvs)
           @ newline_indent level @ str ''}'')"
| "dumps_items level [] = []"
| "dumps_items level (x # xs) = dumps_at level x # dumps_items level xs"
| "dumps_members level [] = []"
| "dumps_members level (kv # kvs) =
     (encode_str (fst kv) @ str '': '' @ dumps_at level (snd kv)) # dumps_members level kvs"

definition json_dumps :: "json \<Rightarrow> pystr" where
  "json_dumps v = dumps_at 0 v"

section \<open>The client object, the outside world and the effects\<close>

definition DEFAULT_PORT :: nat where
  "DEFAULT_PORT = 5678"

definition DOCKER_HOSTS :: "pystr list" where
  "DOCKER_HOSTS = [str ''host.docker.internal'', str ''localhost'', str ''127.0.0.1'',
     str ''172.17.0.1'', str ''n8n'']"

definition MAX_RETRIES :: nat where
  "MAX_RETRIES = 3"

definition build_url :: "pystr \<Rightarrow> nat \<Rightarrow> pystr \<Rightarrow> pystr" where
  "build_url host port path = str ''http://'' @ host @ str '':'' @ dec port @ path"

text \<open>
  Everything the process does to the outside world, in order: resolver probes, protocol
  requests, sleeps and draws of a random id.
\<close>

datatype event =
    Probe pystr
  | Post pystr "(pystr \<times> pystr) list" json
  | Sleep rat
  | Uuid4

text \<open>The attributes of \<open>N8nMCPClient\<close>, and with them the log of events so far.\<close>

record client =
  endpoint_path :: pystr
  base_url :: "pystr option"
  available_tools :: json
  initialized :: bool
  server_capabilities :: json
  session_id :: "pystr option"
  protocol_version :: pystr

record world = client +
  trace :: "event list"

text \<open>\<open>N8nMCPClient.__init__\<close>, the version string being the date of construction.\<close>

definition new_client :: "pystr \<Rightarrow> pystr \<Rightarrow> world" where
  "new_client path version =
     \<lparr>endpoint_path = path, base_url = None, available_tools = JArr [], initialized = False,
      server_capabilities = JObj [], session_id = None, protocol_version = version,
      trace = []\<rparr>"

text \<open>What the server sends back for one request, as far as the client reads it.\<close>

record http_response =
  status_code :: int
  session_header :: "pystr option"
  content_type :: "pystr option"
  body_text :: pystr

datatype post_outcome = PostTimeout | PostError | PostResponse http_response

datatype probe_outcome = ProbeError | ProbeStatus int

text \<open>
  The network and the random source. The outcome of an operation is looked up at the
  number of events that came before it, so an environment fixes the outcome of every
  operation of a run, whatever the operation is.
\<close>

record env =
  probe_at :: "nat \<Rightarrow> probe_outcome"
  post_at :: "nat \<Rightarrow> post_outcome"
  uuid_at :: "nat \<Rightarrow> pystr"

text \<open>A computation changes the world and returns a value or raises.\<close>

type_synonym 'a prog = "world \<Rightarrow> (pyexn + 'a) \<times> world"

definition pret :: "'a \<Rightarrow> 'a prog" where
  "pret x s = (Inr x, s)"

definition plift :: "pyexn + 'a \<Rightarrow> 'a prog" where
  "plift r s = (r, s)"

definition pbind :: "'a prog \<Rightarrow> ('a \<Rightarrow> 'b prog) \<Rightarrow> 'b prog" where
  "pbind m f s = (case m s of (Inl e, s') \<Rightarrow> (Inl e, s') | (Inr x, s') \<Rightarrow> f x s')"

text \<open>\<open>try: m except Exception as e: h e\<close>.\<close>

definition ptry :: "'a prog \<Rightarrow> (pyexn \<Rightarrow> 'a prog) \<Rightarrow> 'a prog" where
  "ptry m h s = (case m s of (Inl e, s') \<Rightarrow> h e s' | (Inr x, s') \<Rightarrow> (Inr x, s'))"

definition update :: "(world \<Rightarrow> world) \<Rightarrow> unit prog" where
  "update f s = (Inr (), f s)"

definition ebind :: "pyexn + 'a \<Rightarrow> ('a \<Rightarrow> pyexn + 'b) \<Rightarrow> pyexn + 'b" where
  "ebind r f = (case r of Inl e \<Rightarrow> Inl e | Inr x \<Rightarrow> f x)"

definition emit :: "event \<Rightarrow> world \<Rightarrow> world" where
  "emit e s = s\<lparr>trace := trace s @ [e]\<rparr>"

definition http_get :: "env \<Rightarrow> pystr \<Rightarrow> int prog" where
  "http_get env url s =
     (case probe_at env (length (trace s)) of
        ProbeError \<Rightarrow> (Inl ClientError, emit (Probe url) s)
      | ProbeStatus n \<Rightarrow> (Inr n, emit (Probe url) s))"

definition http_post :: "env \<Rightarrow> pystr \<Rightarrow> (pystr \<times> pystr) list \<Rightarrow> json \<Rightarrow> http_response prog" where
  "http_post env url headers request s =
     (case post_at env (length (trace s)) of
        PostTimeout \<Rightarrow> (Inl TimeoutError, emit (Post url headers request) s)
      | PostError \<Rightarrow> (Inl ClientError, emit (Post url headers request) s)
      | PostResponse r \<Rightarrow> (Inr r, emit (Post url headers request) s))"

definition sleep :: "rat \<Rightarrow> unit prog" where
  "sleep d s = (Inr (), emit (Sleep d) s)"

definition uuid4 :: "env \<Rightarrow> pystr prog" where
  "uuid4 env s = (Inr (uuid_at env (length (trace s))), emit Uuid4 s)"

text \<open>\<open>get_available_tools\<close>: the names of the tools that have one.\<close>

fun tool_names :: "json list \<Rightarrow> pyexn + json list" where
  "tool_names [] = Inr []"
| "tool_names (tool # rest) =
     (case py_get tool (str ''name'') JNull of
        Inl e \<Rightarrow> Inl e
      | Inr has_name \<Rightarrow>
          (case (if truthy has_name then py_get tool (str ''name'') (JStr []) else Inr JNull) of
             Inl e \<Rightarrow> Inl e
           | Inr name \<Rightarrow>
               (case tool_names rest of
                  Inl e \<Rightarrow> Inl e
                | Inr names \<Rightarrow> Inr ((if truthy has_name then [name] else []) @ names))))"

definition get_available_tools :: "world \<Rightarrow> pyexn + json list" where
  "get_available_tools s = ebind (py_iter (available_tools s)) tool_names"

section \<open>Endpoint resolver\<close>

text \<open>
  \<open>test_n8n_connectivity\<close>: the loop over the candidate hosts. A probe that raises is
  caught and the loop goes on; a status other than 200 falls out of the \<open>try\<close> and the
  loop goes on as well.
\<close>

fun probe_hosts :: "env \<Rightarrow> pystr list \<Rightarrow> (bool \<times> pystr) prog" where
  "probe_hosts env [] = pret (False, str ''No n8n instance accessible'')"
| "probe_hosts env (host # rest) =
     (let test_url = build_url host DEFAULT_PORT [] in
      pbind (ptry (pbind (http_get env test_url) (\<lambda>st. pret (st = 200))) (\<lambda>e. pret False))
        (\<lambda>ok. if ok then pret (True, test_url) else probe_hosts env rest))"

definition test_n8n_connectivity :: "env \<Rightarrow> (bool \<times> pystr) prog" where
  "test_n8n_connectivity env = probe_hosts env DOCKER_HOSTS"

section \<open>Transport\<close>

text \<open>\<open>parse_sse_response\<close>: the first \<open>data: \<close> line with a payload other than
  \<open>[DONE]\<close> is decoded; any exception gives \<open>None\<close>.\<close>

fun sse_scan :: "pylib \<Rightarrow> pystr list \<Rightarrow> pyexn + json" where
  "sse_scan lib [] = Inr JNull"
| "sse_scan lib (line # rest) =
     (if startswith line (str ''data: '') then
        (let data_part = drop 6 line in
         if data_part \<noteq> [] \<and> data_part \<noteq> str ''[DONE]'' then json_loads lib data_part
         else sse_scan lib rest)
      else sse_scan lib rest)"

definition parse_sse_response :: "pylib \<Rightarrow> pystr \<Rightarrow> json" where
  "parse_sse_response lib response_text =
     (case sse_scan lib (split_char 10 (strip response_text)) of
        Inr v \<Rightarrow> v
      | Inl e \<Rightarrow> JNull)"

text \<open>How one pass through the body of the retry loop ends: with a \<open>return\<close>, or by
  going on to the next attempt (a \<open>continue\<close>, or the end of the body).\<close>

datatype 'a flow = Return 'a | Next

definition request_headers :: "world \<Rightarrow> (pystr \<times> pystr) list" where
  "request_headers s =
     [(str ''Content-Type'', str ''application/json''),
      (str ''Accept'', str ''application/json, text/event-stream''),
      (str ''MCP-Protocol-Version'', protocol_version s),
      (str ''User-Agent'', str ''n8n-mcp-telegram-client/1.0'')]
     @ (case session_id s of
          None \<Rightarrow> []
        | Some sid \<Rightarrow> if sid \<noteq> [] then [(str ''Mcp-Session-Id'', sid)] else [])"

definition opt_text :: "pystr option \<Rightarrow> pystr" where
  "opt_text v = (case v of None \<Rightarrow> str ''None'' | Some t \<Rightarrow> t)"

definition accepted :: json where
  "accepted = JObj [(str ''status'', JStr (str ''accepted''))]"

text \<open>Lines 189 to 191: a session header in the response replaces the session id.\<close>

definition adopt_session :: "http_response \<Rightarrow> world \<Rightarrow> world" where
  "adopt_session response s =
     (case session_header response of
        Some sid \<Rightarrow> s\<lparr>session_id := Some sid\<rparr>
      | None \<Rightarrow> s)"

text \<open>Lines 193 to 229: the branch on the status. The handler of line 205 catches a
  \<open>JSONDecodeError\<close> only; any other exception of \<open>json.loads\<close> leaves the \<open>try\<close>
  block of the attempt.\<close>

definition handle_response :: "pylib \<Rightarrow> nat \<Rightarrow> http_response \<Rightarrow> json flow prog" where
  "handle_response lib attempt response =
     pbind (update (adopt_session response))
       (\<lambda>_. if status_code response = 200 then
               (if contains (str ''text/event-stream'')
                     (case content_type response of Some ct \<Rightarrow> ct | None \<Rightarrow> [])
                then (let sse_data = parse_sse_response lib (body_text response) in
                      if truthy sse_data then pret (Return sse_data) else pret Next)
                else (case json_loads lib (body_text response) of
                        Inr result \<Rightarrow> pret (Return result)
                      | Inl e \<Rightarrow> if e = JSONDecodeError then pret Next else plift (Inl e)))
             else if status_code response = 202 then pret (Return accepted)
             else if status_code response = 400 then pret (Return JNull)
             else if status_code response = 404 then
               pbind (update (\<lambda>s. s\<lparr>session_id := None, initialized := False\<rparr>))
                 (\<lambda>_. pret (Return JNull))
             else if status_code response \<ge> 500 \<and> attempt < MAX_RETRIES - 1 then
               pbind (sleep (2 ^ attempt)) (\<lambda>_. pret Next)
             else pret (Return JNull))"

definition mcp_url :: "world \<Rightarrow> pystr" where
  "mcp_url s = opt_text (base_url s) @ endpoint_path s"

text \<open>The \<open>try\<close> block of one attempt, and the attempt with its two handlers (the one
  for a timeout and the one for any other exception do the same).\<close>

definition attempt_body :: "pylib \<Rightarrow> env \<Rightarrow> json \<Rightarrow> nat \<Rightarrow> json flow prog" where
  "attempt_body lib env request attempt s =
     pbind (http_post env (mcp_url s) (request_headers s) request)
       (handle_response lib attempt) s"

definition attempt_once :: "pylib \<Rightarrow> env \<Rightarrow> json \<Rightarrow> nat \<Rightarrow> json flow prog" where
  "attempt_once lib env request attempt =
     ptry (attempt_body lib env request attempt)
       (\<lambda>e. if attempt < MAX_RETRIES - 1 then pbind (sleep (2 ^ attempt)) (\<lambda>_. pret Next)
            else pret (Return JNull))"

text \<open>The \<open>for attempt in range(MAX_RETRIES)\<close> loop; a loop that runs out returns
  \<open>None\<close>, as a Python function without a \<open>return\<close> does.\<close>

fun send_loop :: "pylib \<Rightarrow> env \<Rightarrow> json \<Rightarrow> nat list \<Rightarrow> json prog" where
  "send_loop lib env request [] = pret JNull"
| "send_loop lib env request (attempt # rest) =
     pbind (attempt_once lib env request attempt)
       (\<lambda>fl. case fl of Return v \<Rightarrow> pret v | Next \<Rightarrow> send_loop lib env request rest)"

definition send_mcp_request :: "pylib \<Rightarrow> env \<Rightarrow> json \<Rightarrow> json prog" where
  "send_mcp_request lib env request s =
     (if \<not> truthy_opt (base_url s) then (Inr JNull, s)
      else send_loop lib env request [0..<MAX_RETRIES] s)"

section \<open>Session state machine\<close>

definition init_request :: "pystr \<Rightarrow> pystr \<Rightarrow> json" where
  "init_request uuid version =
     JObj [(str ''jsonrpc'', JStr (str ''2.0'')),
           (str ''id'', JStr (str ''init-'' @ uuid)),
           (str ''method'', JStr (str ''initialize'')),
           (str ''params'',
              JObj [(str ''protocolVersion'', JStr version),
                    (str ''capabilities'', JObj [(str ''tools'', JObj [])]),
                    (str ''clientInfo'',
                       JObj [(str ''name'', JStr (str ''n8n-mcp-telegram-client'')),
                             (str ''version'', JStr (str ''1.0.0''))])])]"

definition initialized_notification :: json where
  "initialized_notification =
     JObj [(str ''jsonrpc'', JStr (str ''2.0'')),
           (str ''method'', JStr (str ''notifications/initialized''))]"

definition tools_request :: "pystr \<Rightarrow> json" where
  "tools_request uuid =
     JObj [(str ''jsonrpc'', JStr (str ''2.0'')),
           (str ''id'', JStr (str ''tools-'' @ uuid)),
           (str ''method'', JStr (str ''tools/list'')),
           (str ''params'', JObj [])]"

definition tool_descriptor :: "string \<Rightarrow> string \<Rightarrow> json" where
  "tool_descriptor name description =
     JObj [(str ''name'', JStr (str name)), (str ''description'', JStr (str description))]"

definition predefined_tools :: json where
  "predefined_tools =
     JArr [tool_descriptor ''Find_Emails'' ''Find and retrieve emails from Gmail'',
           tool_descriptor ''Send_Email'' ''Send an email via Gmail'',
           tool_descriptor ''Create_an_event'' ''Create a calendar event in Google Calendar'',
           tool_descriptor ''Find_single_event'' ''Find a specific calendar event'',
           tool_descriptor ''Find_multiple_events'' ''Find multiple calendar events'',
           tool_descriptor ''Update_event'' ''Update an existing calendar event'']"

text \<open>The body of the logging loop over the fetched tools (lines 324 to 333): the
  look-ups it makes raise on a tool, schema or property table that is not a \<open>dict\<close>.\<close>

definition log_tool :: "json \<Rightarrow> pyexn + unit" where
  "log_tool tool =
     ebind (py_get tool (str ''name'') (JStr (str ''Unknown''))) (\<lambda>name.
     ebind (py_get tool (str ''description'') (JStr (str ''No description''))) (\<lambda>description.
     ebind (py_get tool (str ''inputSchema'') (JObj [])) (\<lambda>schema.
     ebind (py_get schema (str ''properties'') (JObj [])) (\<lambda>props.
     ebind (py_keys props) (\<lambda>properties.
     ebind (py_get schema (str ''required'') (JArr [])) (\<lambda>required. Inr ()))))))"

fun log_tools :: "json list \<Rightarrow> pyexn + unit" where
  "log_tools [] = Inr ()"
| "log_tools (tool # rest) = ebind (log_tool tool) (\<lambda>_. log_tools rest)"

definition use_predefined_tools :: "bool prog" where
  "use_predefined_tools =
     pbind (update (\<lambda>s. s\<lparr>available_tools := predefined_tools\<rparr>)) (\<lambda>_. pret True)"

definition fetch_available_tools :: "pylib \<Rightarrow> env \<Rightarrow> bool prog" where
  "fetch_available_tools lib env =
     ptry
       (pbind (uuid4 env) (\<lambda>uuid.
        pbind (send_mcp_request lib env (tools_request uuid)) (\<lambda>tools_response.
        pbind (if truthy tools_response then plift (py_in (str ''result'') tools_response)
               else pret False) (\<lambda>has_result.
        if has_result then
          pbind (plift (getitem tools_response (str ''result''))) (\<lambda>result.
          pbind (plift (py_get result (str ''tools'') (JArr []))) (\<lambda>tools.
          if truthy tools then
            pbind (update (\<lambda>s. s\<lparr>available_tools := tools\<rparr>)) (\<lambda>_.
            pbind (plift (py_len tools)) (\<lambda>n.
            pbind (plift (py_iter tools)) (\<lambda>items.
            pbind (plift (log_tools items)) (\<lambda>_. pret True))))
          else use_predefined_tools))
        else use_predefined_tools))))
       (\<lambda>e. pret False)"

text \<open>Lines 276 to 285: the check of the \<open>initialize\<close> response, the server
  capabilities it carries, and the server info read for the log line. The value says
  whether the handshake goes on (\<open>False\<close> is the \<open>return False\<close> of line 278).\<close>

definition read_init_response :: "json \<Rightarrow> bool prog" where
  "read_init_response init_response =
     pbind (if \<not> truthy init_response then pret True
            else pbind (plift (py_in (str ''result'') init_response))
                   (\<lambda>has. pret (\<not> has))) (\<lambda>failed.
     if failed then pret False
     else
       pbind (plift (getitem init_response (str ''result''))) (\<lambda>result.
       pbind (plift (py_get result (str ''capabilities'') (JObj []))) (\<lambda>capabilities.
       pbind (update (\<lambda>s. s\<lparr>server_capabilities := capabilities\<rparr>)) (\<lambda>_.
       pbind (plift (py_get result (str ''serverInfo'') (JObj []))) (\<lambda>server_info.
       pbind (plift (py_get server_info (str ''name'') (JStr (str ''Unknown'')))) (\<lambda>_.
       pbind (plift (py_get server_info (str ''version'') (JStr (str ''?'')))) (\<lambda>_.
       pret True)))))))"

text \<open>Lines 287 to 298: the pause, the \<open>initialized\<close> notification, the tool listing
  and the flag.\<close>

definition finish_handshake :: "pylib \<Rightarrow> env \<Rightarrow> bool prog" where
  "finish_handshake lib env =
     pbind (sleep (1 / 10)) (\<lambda>_.
     pbind (send_mcp_request lib env initialized_notification) (\<lambda>_.
     pbind (fetch_available_tools lib env) (\<lambda>_.
     pbind (update (\<lambda>s. s\<lparr>initialized := True\<rparr>)) (\<lambda>_. pret True))))"

text \<open>
  \<open>initialize\<close>. The whole body runs under \<open>async with self._session_lock\<close>; one
  invocation alone always gets the lock, so the lock shows only where several invocations
  are put together (\<open>initialize_all\<close> below).
\<close>

definition initialize :: "pylib \<Rightarrow> env \<Rightarrow> bool prog" where
  "initialize lib env =
     ptry
       (pbind (test_n8n_connectivity env) (\<lambda>found.
        if \<not> fst found then pret False
        else
          pbind (update (\<lambda>s. s\<lparr>base_url := Some (snd found)\<rparr>)) (\<lambda>_.
          pbind (uuid4 env) (\<lambda>uuid.
          pbind (\<lambda>s. send_mcp_request lib env (init_request uuid (protocol_version s)) s)
            (\<lambda>init_response.
          pbind (read_init_response init_response) (\<lambda>goes_on.
          if goes_on then finish_handshake lib env else pret False))))))
       (\<lambda>e. pret False)"

text \<open>
  Invocations of \<open>initialize\<close> that are in flight together. Each one first waits for the
  lock, which is held from the first to the last statement of the body and handed to the
  waiters in the order they arrived; so the bodies run whole, one after the other, on the
  state the one before left.
\<close>

fun initialize_all :: "pylib \<Rightarrow> env \<Rightarrow> nat \<Rightarrow> bool list prog" where
  "initialize_all lib env 0 = pret []"
| "initialize_all lib env (Suc n) =
     pbind (initialize lib env) (\<lambda>ok.
     pbind (initialize_all lib env n) (\<lambda>oks. pret (ok # oks)))"

section \<open>Tool call dispatcher\<close>

text \<open>The two code points that open every error message in the source file.\<close>

definition cross_mark :: pystr where
  "cross_mark = [226, 338]"

definition tool_request :: "pystr \<Rightarrow> pystr \<Rightarrow> json \<Rightarrow> json" where
  "tool_request uuid tool_name arguments =
     JObj [(str ''jsonrpc'', JStr (str ''2.0'')),
           (str ''id'', JStr (str ''tool-'' @ uuid)),
           (str ''method'', JStr (str ''tools/call'')),
           (str ''params'',
              JObj [(str ''name'', JStr tool_name), (str ''arguments'', arguments)])]"

definition not_initialized_message :: pystr where
  "not_initialized_message = cross_mark @ str '' MCP client not initialized''"

definition no_response_message :: pystr where
  "no_response_message = cross_mark @ str '' No response from MCP server''"

definition unexpected_format_message :: pystr where
  "unexpected_format_message = cross_mark @ str '' Unexpected response format''"

definition mcp_error_message :: "pylib \<Rightarrow> json \<Rightarrow> json \<Rightarrow> pystr" where
  "mcp_error_message lib code message =
     cross_mark @ str '' MCP error '' @ py_format lib code @ str '': '' @ py_format lib message"

definition tool_execution_error :: "pylib \<Rightarrow> pyexn \<Rightarrow> pystr" where
  "tool_execution_error lib e = cross_mark @ str '' Tool execution error: '' @ exn_str lib e"

text \<open>Lines 375 to 388: what \<open>call_tool\<close> makes of the transport's answer.\<close>

definition render_response :: "pylib \<Rightarrow> json \<Rightarrow> pyexn + pystr" where
  "render_response lib tool_response =
     (if \<not> truthy tool_response then Inr no_response_message
      else
        ebind (py_in (str ''error'') tool_response) (\<lambda>has_error.
        if has_error then
          ebind (getitem tool_response (str ''error'')) (\<lambda>error.
          ebind (py_get error (str ''code'') (JStr (str ''unknown''))) (\<lambda>code.
          ebind (py_get error (str ''message'') (JStr (str ''Unknown error''))) (\<lambda>message.
          Inr (mcp_error_message lib code message))))
        else
          ebind (py_in (str ''result'') tool_response) (\<lambda>has_result.
          if has_result then
            ebind (getitem tool_response (str ''result'')) (\<lambda>result. Inr (json_dumps result))
          else Inr unexpected_format_message)))"

text \<open>
  A value of the argument map (\<open>Dict[str, Any]\<close>) as \<open>json.dumps\<close> sees it: one it can
  serialise, which is a JSON value, or any other Python object (a \<open>set\<close>, \<open>bytes\<close>,
  an instance of a class), on which it raises \<open>TypeError\<close>.
\<close>

datatype pyarg = Serialisable json | Unserialisable

text \<open>
  Line 360: the f-string handed to \<open>logger.debug\<close> is evaluated whatever the log level,
  so \<open>json.dumps(arguments, indent=2)\<close> runs, and it runs before the \<open>try\<close>. Its text
  goes to the log only; the model keeps whether it raises and, when it does not, the
  items of the map as JSON values.
\<close>

fun serialise_arguments :: "(pystr \<times> pyarg) list \<Rightarrow> pyexn + (pystr \<times> json) list" where
  "serialise_arguments [] = Inr []"
| "serialise_arguments ((k, a) # rest) =
     (case a of
        Unserialisable \<Rightarrow> Inl TypeError
      | Serialisable v \<Rightarrow> ebind (serialise_arguments rest) (\<lambda>kvs. Inr ((k, v) # kvs)))"

definition call_tool :: "pylib \<Rightarrow> env \<Rightarrow> pystr \<Rightarrow> (pystr \<times> pyarg) list \<Rightarrow> pystr prog" where
  "call_tool lib env tool_name arguments =
     pbind (\<lambda>s. if \<not> initialized s then pbind (initialize lib env) (\<lambda>ok. pret (\<not> ok)) s
                else pret False s) (\<lambda>not_ready.
     if not_ready then pret not_initialized_message
     else
       pbind (plift (serialise_arguments arguments)) (\<lambda>kvs.
       ptry
         (pbind (uuid4 env) (\<lambda>uuid.
          pbind (send_mcp_request lib env (tool_request uuid tool_name (JObj kvs)))
            (\<lambda>tool_response. plift (render_response lib tool_response))))
         (\<lambda>e. pret (tool_execution_error lib e))))"

section \<open>Directive parser\<close>

text \<open>The brace-counting loop of lines 519 to 526, over the characters from
  \<open>start_idx\<close> on; the result is \<open>end_idx\<close>.\<close>

fun brace_scan :: "pystr \<Rightarrow> int \<Rightarrow> int \<Rightarrow> int" where
  "brace_scan [] i brace_count = -1"
| "brace_scan (c # cs) i brace_count =
     (if c = 123 then brace_scan cs (i + 1) (brace_count + 1)
      else if c = 125 then
        (if brace_count - 1 = 0 then i else brace_scan cs (i + 1) (brace_count - 1))
      else brace_scan cs (i + 1) brace_count)"

definition extract_name :: "pystr \<Rightarrow> pyexn + pystr option" where
  "extract_name text =
     (if contains (str ''TOOL:'') text then
        ebind (item (split_once (str ''TOOL:'') text) 1) (\<lambda>rest.
        ebind (item (split_once [10] (strip rest)) 0) (\<lambda>line. Inr (Some (strip line))))
      else Inr None)"

text \<open>Lines 510 to 529: the text of the JSON object after \<open>ARGUMENTS:\<close>, when the
  scan finds one.\<close>

definition find_args_json :: "pystr \<Rightarrow> pyexn + pystr option" where
  "find_args_json text =
     (if contains (str ''ARGUMENTS:'') text then
        ebind (item (split_once (str ''ARGUMENTS:'') text) 1) (\<lambda>rest.
        let args_text = strip rest; start_idx = find_char args_text 123 in
        if start_idx \<noteq> -1 then
          (let end_idx = brace_scan (drop (nat start_idx) args_text) start_idx 0 in
           if end_idx \<noteq> -1 then
             Inr (Some (take (nat (end_idx + 1 - start_idx)) (drop (nat start_idx) args_text)))
           else Inr None)
        else Inr None)
      else Inr None)"

text \<open>Lines 509 and 530 to 533: \<open>arguments\<close> starts as the empty \<open>dict\<close> and is
  replaced only by a successful decode. The handler of line 532 catches a
  \<open>JSONDecodeError\<close> only; any other exception of \<open>json.loads\<close> goes on to the handler
  of line 537.\<close>

definition extract_arguments :: "pylib \<Rightarrow> pystr \<Rightarrow> pyexn + json" where
  "extract_arguments lib text =
     ebind (find_args_json text) (\<lambda>found.
       case found of
         None \<Rightarrow> Inr (JObj [])
       | Some args_json \<Rightarrow>
           (case json_loads lib args_json of
              Inr arguments \<Rightarrow> Inr arguments
            | Inl e \<Rightarrow> if e = JSONDecodeError then Inr (JObj []) else Inl e))"

definition extract_tool_call :: "pylib \<Rightarrow> pystr \<Rightarrow> pystr option \<times> json" where
  "extract_tool_call lib text =
     (if \<not> contains (str ''ACTION:'') text \<or> \<not> contains (str ''call_tool'') text
      then (None, JObj [])
      else (case ebind (extract_name text) (\<lambda>tool_name.
                 ebind (extract_arguments lib text) (\<lambda>arguments. Inr (tool_name, arguments))) of
              Inr r \<Rightarrow> r
            | Inl e \<Rightarrow> (None, JObj [])))"

section \<open>Notions used in the statements\<close>

text \<open>The attributes a transport call leaves alone: all but the session id and the
  \<open>initialized\<close> flag.\<close>

definition only_session_changed :: "world \<Rightarrow> world \<Rightarrow> bool" where
  "only_session_changed s s' =
     (endpoint_path s' = endpoint_path s \<and> base_url s' = base_url s
      \<and> available_tools s' = available_tools s
      \<and> server_capabilities s' = server_capabilities s
      \<and> protocol_version s' = protocol_version s)"

text \<open>A value is the decoded payload of a response: the response has status 200 and the
  value is what its event-stream framing, or else its body, decodes to.\<close>

definition decoded_from :: "pylib \<Rightarrow> http_response \<Rightarrow> json \<Rightarrow> bool" where
  "decoded_from lib r v =
     (status_code r = 200
      \<and> (if contains (str ''text/event-stream'')
               (case content_type r of Some ct \<Rightarrow> ct | None \<Rightarrow> [])
         then v = parse_sse_response lib (body_text r)
         else json_loads lib (body_text r) = Inr v))"

text \<open>The JSON-RPC methods of the requests in a log, in the order they were posted.\<close>

fun method_of :: "event \<Rightarrow> pystr list" where
  "method_of (Post url headers request) =
     (case getitem request (str ''method'') of Inr (JStr m) \<Rightarrow> [m] | _ \<Rightarrow> [])"
| "method_of e = []"

definition post_methods :: "event list \<Rightarrow> pystr list" where
  "post_methods evs = concat (map method_of evs)"

text \<open>Concrete surroundings for running the model: a decoder given by a table (any
  text outside the table is not JSON), an
  environment that answers every operation the same way, and a client whose endpoint is
  already resolved.\<close>

definition table_lib :: "(pystr \<times> json) list \<Rightarrow> pylib" where
  "table_lib table =
     \<lparr>json_loads = (\<lambda>t. case map_of table t of Some v \<Rightarrow> Inr v | None \<Rightarrow> Inl JSONDecodeError),
      exn_str = (\<lambda>e. str ''error''), repr_str = (\<lambda>t. [39] @ t @ [39])\<rparr>"

definition constant_env :: "probe_outcome \<Rightarrow> post_outcome \<Rightarrow> env" where
  "constant_env p q = \<lparr>probe_at = (\<lambda>n. p), post_at = (\<lambda>n. q), uuid_at = (\<lambda>n. str ''0000'')\<rparr>"

definition plain_response :: "int \<Rightarrow> pystr \<Rightarrow> http_response" where
  "plain_response code body =
     \<lparr>status_code = code, session_header = None,
      content_type = Some (str ''application/json''), body_text = body\<rparr>"

definition resolved_client :: world where
  "resolved_client =
     (new_client (str ''/mcp/demo'') (str ''2025-01-01''))\<lparr>base_url := Some (str ''http://localhost:5678'')\<rparr>"

definition ping :: json where
  "ping = JObj [(str ''jsonrpc'', JStr (str ''2.0'')), (str ''method'', JStr (str ''ping''))]"

text \<open>\<open>sep\<close> occurs in \<open>text\<close> for the first time right after \<open>before\<close>, and
  \<open>rest\<close> is what follows it.\<close>

definition first_cut :: "pystr \<Rightarrow> pystr \<Rightarrow> pystr \<Rightarrow> pystr \<Rightarrow> bool" where
  "first_cut sep text before rest =
     (text = before @ sep @ rest
      \<and> list_all (\<lambda>k. \<not> startswith (drop k text) sep) [0..<length before])"

text \<open>Opening braces minus closing braces; a text whose braces never close is one
  every non-empty prefix of which has more opening than closing braces.\<close>

fun depth :: "pystr \<Rightarrow> int" where
  "depth [] = 0"
| "depth (c # cs) = (if c = 123 then 1 else if c = 125 then - 1 else 0) + depth cs"

definition never_closes :: "pystr \<Rightarrow> bool" where
  "never_closes t = list_all (\<lambda>n. 0 < depth (take n t)) [1..<Suc (length t)]"

definition directive_unclosed :: pystr where
  "directive_unclosed =
     str ''ACTION: call_tool'' @ [10] @ str ''TOOL: Send_Email'' @ [10]
       @ str ''ARGUMENTS: {To: {a@b.com}''"

definition directive_closed :: pystr where
  "directive_closed =
     str ''ACTION: call_tool'' @ [10] @ str ''TOOL: Send_Email'' @ [10]
       @ str ''ARGUMENTS: {To: a@b.com}''"




text \<open>The body \<open>{"result": null}\<close>, a decoder that knows it besides \<open>payload\<close> and
  \<open>5\<close>, and a server that answers every probe with a 200 and every request with a 200
  and the body \<open>payload\<close>, except the request posted at position 6 of the log (the
  \<open>tools/list\<close> of a handshake that a new client starts), which gets the given body.\<close>

definition null_result_body :: pystr where
  "null_result_body = [123, 34] @ str ''result'' @ [34] @ str '': null}''"

definition listing_lib :: pylib where
  "listing_lib =
     table_lib [(str ''payload'', JObj [(str ''result'', JObj [(str ''ok'', JBool True)])]),
                (null_result_body, JObj [(str ''result'', JNull)]),
                (str ''5'', JInt 5)]"

definition tools_answer_env :: "pystr \<Rightarrow> env" where
  "tools_answer_env body =
     \<lparr>probe_at = (\<lambda>n. ProbeStatus 200),
      post_at = (\<lambda>n. if n = 6 then PostResponse (plain_response 200 body)
                      else PostResponse (plain_response 200 (str ''payload''))),
      uuid_at = (\<lambda>n. str ''0000'')\<rparr>"

text \<open>
  A run of more than \<open>limit\<close> decimal digits, the count \<open>n\<close> being the digits just
  seen. CPython's \<open>json.loads\<close> raises \<open>ValueError\<close> on an integer literal of more than
  4300 digits; \<open>digit_limit_lib\<close> is a table decoder that does so as well.
\<close>

fun has_digit_run :: "nat \<Rightarrow> pystr \<Rightarrow> nat \<Rightarrow> bool" where
  "has_digit_run limit [] n = (limit < n)"
| "has_digit_run limit (c # cs) n =
     (if 48 \<le> c \<and> c \<le> 57 then has_digit_run limit cs (Suc n)
      else (limit < n \<or> has_digit_run limit cs 0))"

definition digit_limit_lib :: "(pystr \<times> json) list \<Rightarrow> pylib" where
  "digit_limit_lib table =
     \<lparr>json_loads = (\<lambda>t. if has_digit_run 4300 t 0 then Inl ValueError
                         else json_loads (table_lib table) t),
      exn_str = (\<lambda>e. str ''error''), repr_str = (\<lambda>t. [39] @ t @ [39])\<rparr>"

text \<open>An integer literal of 5000 digits, the object \<open>{"n": 111...1}\<close> that holds it,
  and a directive whose arguments are that object.\<close>

definition long_integer :: pystr where
  "long_integer = replicate 5000 49"

definition long_integer_object :: pystr where
  "long_integer_object = [123, 34] @ str ''n'' @ [34] @ str '': '' @ long_integer @ [125]"

definition directive_long_integer :: pystr where
  "directive_long_integer =
     str ''ACTION: call_tool'' @ [10] @ str ''TOOL: Send_Email'' @ [10]
       @ str ''ARGUMENTS: '' @ long_integer_object"

text \<open>The membership test \<open>key in v\<close> succeeds and answers no: \<open>v\<close> is an object
  without the key, a list that does not hold the string, or a string that does not
  contain it.\<close>

definition lacks :: "pystr \<Rightarrow> json \<Rightarrow> bool" where
  "lacks key v =
     (case v of
        JObj kvs \<Rightarrow> map_of kvs key = None
      | JArr xs \<Rightarrow> JStr key \<notin> set xs
      | JStr t \<Rightarrow> \<not> contains key t
      | _ \<Rightarrow> False)"

text \<open>A decoder that knows the body \<open>5\<close>.\<close>

definition number_lib :: pylib where
  "number_lib = table_lib [(str ''5'', JInt 5)]"

text \<open>A \<open>tools/list\<close> answer that yields no tools and is read without an exception:
  no answer or another false value, an object, list or string without a \<open>result\<close>, or
  an object whose \<open>result\<close> is an object whose \<open>tools\<close> is missing or false (the
  empty list among them).\<close>

definition zero_tools :: "json \<Rightarrow> bool" where
  "zero_tools response =
     (\<not> truthy response \<or> lacks (str ''result'') response
      \<or> (case response of
            JObj kvs \<Rightarrow>
              (case map_of kvs (str ''result'') of
                 Some (JObj rkvs) \<Rightarrow>
                   (case map_of rkvs (str ''tools'') of
                      None \<Rightarrow> True
                    | Some tools \<Rightarrow> \<not> truthy tools)
               | _ \<Rightarrow> False)
          | _ \<Rightarrow> False))"

text \<open>A \<open>tools/list\<close> answer on which the look-up of the tools raises: a true value
  that is a number or \<open>True\<close>, a list or string with \<open>result\<close> in it, or an object
  whose \<open>result\<close> is not an object.\<close>

definition tools_lookup_raises :: "json \<Rightarrow> bool" where
  "tools_lookup_raises response =
     (truthy response
      \<and> (case response of
            JObj kvs \<Rightarrow>
              (case map_of kvs (str ''result'') of
                 None \<Rightarrow> False
               | Some (JObj rkvs) \<Rightarrow> False
               | Some other \<Rightarrow> True)
          | JArr xs \<Rightarrow> JStr (str ''result'') \<in> set xs
          | JStr t \<Rightarrow> contains (str ''result'') t
          | _ \<Rightarrow> True))"

text \<open>A network in which the probes are answered as a list says, in order.\<close>

definition probe_script :: "probe_outcome list \<Rightarrow> env" where
  "probe_script outcomes =
     \<lparr>probe_at = (\<lambda>n. if n < length outcomes then outcomes ! n else ProbeError),
      post_at = (\<lambda>n. PostError), uuid_at = (\<lambda>n. str ''0000'')\<rparr>"

definition probe_url :: "pystr \<Rightarrow> event" where
  "probe_url host = Probe (build_url host DEFAULT_PORT [])"

definition initialized_client :: world where
  "initialized_client = resolved_client\<lparr>initialized := True\<rparr>"

text \<open>A server that answers every request with a 200 and the given JSON body.\<close>

definition body_env :: "pystr \<Rightarrow> env" where
  "body_env body = constant_env ProbeError (PostResponse (plain_response 200 body))"

text \<open>A server that accepts everything: every probe is answered with a 200, every
  request with the same 200 whose body decodes to an object with a \<open>result\<close> that names
  neither server info nor tools.\<close>

definition accepts :: "pylib \<Rightarrow> env \<Rightarrow> http_response \<Rightarrow> (pystr \<times> json) list \<Rightarrow> bool" where
  "accepts lib env r rkvs =
     ((\<forall>n. probe_at env n = ProbeStatus 200) \<and> (\<forall>n. post_at env n = PostResponse r)
      \<and> status_code r = 200 \<and> content_type r = Some (str ''application/json'')
      \<and> json_loads lib (body_text r) = Inr (JObj [(str ''result'', JObj rkvs)])
      \<and> map_of rkvs (str ''serverInfo'') = None \<and> map_of rkvs (str ''tools'') = None)"

text \<open>The events of one whole handshake, as far as the methods show them.\<close>

definition handshake_methods :: "pystr list" where
  "handshake_methods =
     [str ''initialize'', str ''notifications/initialized'', str ''tools/list'']"

text \<open>A server that answers every probe and every request with a 200, the requests
  with the body \<open>payload\<close>.\<close>

definition accepting_env :: env where
  "accepting_env =
     constant_env (ProbeStatus 200) (PostResponse (plain_response 200 (str ''payload'')))"

definition fresh_client :: world where
  "fresh_client = new_client (str ''/mcp/demo'') (str ''2025-01-01'')"

definition ok_payload :: json where
  "ok_payload = JObj [(str ''result'', JObj [(str ''ok'', JBool True)])]"

text \<open>A decoder that knows two bodies: \<open>payload\<close> and \<open>{}\<close>.\<close>

definition demo_lib :: pylib where
  "demo_lib = table_lib [(str ''payload'', ok_payload), (str ''{}'', JObj [])]"

text \<open>A server whose first answer is a 200 with a body that is not JSON, and whose
  later answers are 200 with the body \<open>later\<close>.\<close>

definition undecodable_first_env :: "pystr \<Rightarrow> env" where
  "undecodable_first_env later =
     \<lparr>probe_at = (\<lambda>n. ProbeError),
      post_at = (\<lambda>n. if n = 0 then PostResponse (plain_response 200 (str ''not json''))
                      else PostResponse (plain_response 200 later)),
      uuid_at = (\<lambda>n. str ''0000'')\<rparr>"

section \<open>Properties of the transport\<close>

lemma attempts_list: "[0..<MAX_RETRIES] = [0, 1, 2]"
  by (simp add: MAX_RETRIES_def upt_rec)

lemma pbind_pret [simp]: "pbind (pret x) f s = f x s"
  by (simp add: pbind_def pret_def)

lemma pbind_update [simp]: "pbind (update g) f s = f () (g s)"
  by (simp add: pbind_def update_def)

lemma pbind_sleep [simp]: "pbind (sleep d) f s = f () (emit (Sleep d) s)"
  by (simp add: pbind_def sleep_def)

lemma pbind_run:
  "m s = (r, s1) \<Longrightarrow> pbind m f s = (case r of Inl e \<Rightarrow> (Inl e, s1) | Inr x \<Rightarrow> f x s1)"
  by (simp add: pbind_def split: sum.splits)

lemma handle_response_400:
  "status_code r = 400 \<Longrightarrow>
   handle_response lib attempt r s = (Inr (Return JNull), adopt_session r s)"
  by (simp add: handle_response_def pret_def)

lemma attempt_once_response:
  "post_at env (length (trace s)) = PostResponse r \<Longrightarrow>
   attempt_once lib env request attempt s
     = (case handle_response lib attempt r
               (emit (Post (mcp_url s) (request_headers s) request) s) of
          (Inr fl, s') \<Rightarrow> (Inr fl, s')
        | (Inl e, s') \<Rightarrow>
            (if attempt < MAX_RETRIES - 1 then (Inr Next, emit (Sleep (2 ^ attempt)) s')
             else (Inr (Return JNull), s')))"
  by (simp add: attempt_once_def attempt_body_def ptry_def pbind_def http_post_def pret_def
        sleep_def split: sum.splits prod.splits)

lemma resolved_client_simps:
  "trace resolved_client = []"
  "base_url resolved_client = Some (str ''http://localhost:5678'')"
  "session_id resolved_client = None"
  "initialized resolved_client = False"
  by (simp_all add: resolved_client_def new_client_def)

lemma only_session_changed_refl [simp]: "only_session_changed s s"
  by (simp add: only_session_changed_def)

lemma only_session_changed_trans:
  "only_session_changed s s1 \<Longrightarrow> only_session_changed s1 s2 \<Longrightarrow> only_session_changed s s2"
  by (simp add: only_session_changed_def)

lemma only_session_changed_emit [simp]: "only_session_changed s (emit e s)"
  by (simp add: only_session_changed_def emit_def)

lemma post_methods_simps [simp]:
  "post_methods [] = []"
  "post_methods (e # evs) = method_of e @ post_methods evs"
  "post_methods (evs @ evs') = post_methods evs @ post_methods evs'"
  by (simp_all add: post_methods_def)

lemma handle_response_summary:
  "\<exists>res s' evs. handle_response lib a r s = (res, s')
     \<and> only_session_changed s s' \<and> trace s' = trace s @ evs \<and> post_methods evs = []
     \<and> (\<forall>v. res = Inr (Return v) \<longrightarrow>
           v = JNull \<or> (status_code r = 202 \<and> v = accepted) \<or> decoded_from lib r v)"
  by (auto simp add: handle_response_def pret_def plift_def Let_def adopt_session_def emit_def
        only_session_changed_def decoded_from_def split: option.splits sum.splits)

lemma attempt_once_summary:
  "\<exists>fl s' evs. attempt_once lib env request a s = (Inr fl, s')
     \<and> only_session_changed s s'
     \<and> trace s' = trace s @ Post (mcp_url s) (request_headers s) request # evs
     \<and> post_methods evs = []
     \<and> (\<forall>v. fl = Return v \<longrightarrow> v = JNull \<or>
           (\<exists>r. post_at env (length (trace s)) = PostResponse r
              \<and> ((status_code r = 202 \<and> v = accepted) \<or> decoded_from lib r v)))"
proof (cases "post_at env (length (trace s))")
  case (PostResponse r)
  let ?s1 = "emit (Post (mcp_url s) (request_headers s) request) s"
  obtain res s' evs where h: "handle_response lib a r ?s1 = (res, s')"
    "only_session_changed ?s1 s'" "trace s' = trace ?s1 @ evs" "post_methods evs = []"
    "\<forall>v. res = Inr (Return v) \<longrightarrow>
       v = JNull \<or> (status_code r = 202 \<and> v = accepted) \<or> decoded_from lib r v"
    using handle_response_summary[of lib a r ?s1] by blast
  have o: "only_session_changed s s'"
    using h(2) only_session_changed_trans[OF only_session_changed_emit] by blast
  have t: "trace s' = trace s @ Post (mcp_url s) (request_headers s) request # evs"
    using h(3) by (simp add: emit_def)
  show ?thesis
  proof (cases res)
    case (Inr fl)
    then have "attempt_once lib env request a s = (Inr fl, s')"
      using h(1) PostResponse by (simp add: attempt_once_response)
    then show ?thesis
      using o t h(4) h(5) Inr PostResponse by auto
  next
    case (Inl e)
    then have c: "attempt_once lib env request a s
        = (if a < MAX_RETRIES - 1 then (Inr Next, emit (Sleep (2 ^ a)) s')
           else (Inr (Return JNull), s'))"
      using h(1) PostResponse by (simp add: attempt_once_response)
    show ?thesis
    proof (cases "a < MAX_RETRIES - 1")
      case True
      have "trace (emit (Sleep (2 ^ a)) s')
          = trace s @ Post (mcp_url s) (request_headers s) request # (evs @ [Sleep (2 ^ a)])"
        using t by (simp add: emit_def)
      moreover have "post_methods (evs @ [Sleep (2 ^ a)]) = []"
        using h(4) by simp
      moreover have "only_session_changed s (emit (Sleep (2 ^ a)) s')"
        using o only_session_changed_trans[OF _ only_session_changed_emit] by blast
      ultimately show ?thesis
        using c True
        by (intro exI[of _ Next] exI[of _ "emit (Sleep (2 ^ a)) s'"]
              exI[of _ "evs @ [Sleep (2 ^ a)]"]) simp
    next
      case False
      then show ?thesis using c o t h(4) by auto
    qed
  qed
qed (auto simp add: attempt_once_def attempt_body_def ptry_def pbind_def http_post_def
       pret_def sleep_def emit_def only_session_changed_def)


lemma send_loop_summary:
  "\<exists>v s' evs k. send_loop lib env request attempts s = (Inr v, s')
     \<and> only_session_changed s s'
     \<and> trace s' = trace s @ evs
     \<and> post_methods evs = concat (replicate k (method_of (Post [] [] request)))
     \<and> k \<le> length attempts \<and> (attempts \<noteq> [] \<longrightarrow> 1 \<le> k)
     \<and> (v = JNull \<or>
           (\<exists>n r. length (trace s) \<le> n \<and> n < length (trace s')
              \<and> post_at env n = PostResponse r
              \<and> ((status_code r = 202 \<and> v = accepted) \<or> decoded_from lib r v)))"
proof (induction attempts arbitrary: s)
  case Nil
  show ?case by (simp add: pret_def)
next
  case (Cons a attempts)
  obtain fl s1 evs1 where a: "attempt_once lib env request a s = (Inr fl, s1)"
    "only_session_changed s s1"
    "trace s1 = trace s @ Post (mcp_url s) (request_headers s) request # evs1"
    "post_methods evs1 = []"
    "\<forall>v. fl = Return v \<longrightarrow> v = JNull \<or>
           (\<exists>r. post_at env (length (trace s)) = PostResponse r
              \<and> ((status_code r = 202 \<and> v = accepted) \<or> decoded_from lib r v))"
    using attempt_once_summary[of lib env request a s] by blast
  show ?case
  proof (cases fl)
    case (Return v)
    have "send_loop lib env request (a # attempts) s = (Inr v, s1)"
      using a(1) Return by (simp add: pbind_run pret_def)
    moreover have "post_methods (Post (mcp_url s) (request_headers s) request # evs1)
        = concat (replicate 1 (method_of (Post [] [] request)))"
      using a(4) by simp
    moreover have "v = JNull \<or>
           (\<exists>n r. length (trace s) \<le> n \<and> n < length (trace s1)
              \<and> post_at env n = PostResponse r
              \<and> ((status_code r = 202 \<and> v = accepted) \<or> decoded_from lib r v))"
      using a(5) a(3) Return by auto
    ultimately show ?thesis using a(2) a(3) by (intro exI[of _ v] exI[of _ s1] exI[of _ "Post (mcp_url s) (request_headers s) request # evs1"] exI[of _ 1]) simp
  next
    case Next
    obtain v s' evs k where r: "send_loop lib env request attempts s1 = (Inr v, s')"
      "only_session_changed s1 s'" "trace s' = trace s1 @ evs"
      "post_methods evs = concat (replicate k (method_of (Post [] [] request)))"
      "k \<le> length attempts"
      "v = JNull \<or>
           (\<exists>n r. length (trace s1) \<le> n \<and> n < length (trace s')
              \<and> post_at env n = PostResponse r
              \<and> ((status_code r = 202 \<and> v = accepted) \<or> decoded_from lib r v))"
      using Cons.IH[of s1] by blast
    have "send_loop lib env request (a # attempts) s = (Inr v, s')"
      using a(1) Next r(1) by (simp add: pbind_run)
    moreover have "only_session_changed s s'"
      using a(2) r(2) by (rule only_session_changed_trans)
    moreover have "trace s' = trace s @ (Post (mcp_url s) (request_headers s) request # evs1 @ evs)"
      using a(3) r(3) by simp
    moreover have "post_methods (Post (mcp_url s) (request_headers s) request # evs1 @ evs)
        = concat (replicate (Suc k) (method_of (Post [] [] request)))"
      using a(4) r(4) by simp
    moreover have "v = JNull \<or>
           (\<exists>n r. length (trace s) \<le> n \<and> n < length (trace s')
              \<and> post_at env n = PostResponse r
              \<and> ((status_code r = 202 \<and> v = accepted) \<or> decoded_from lib r v))"
      using r(6) a(3) by auto
    ultimately show ?thesis using r(5)
      by (intro exI[of _ v] exI[of _ s'] exI[of _ "Post (mcp_url s) (request_headers s) request # evs1 @ evs"] exI[of _ "Suc k"]) simp
  qed
qed

lemma send_mcp_request_summary:
  "\<exists>v s' evs k. send_mcp_request lib env request s = (Inr v, s')
     \<and> only_session_changed s s'
     \<and> trace s' = trace s @ evs
     \<and> post_methods evs = concat (replicate k (method_of (Post [] [] request)))
     \<and> k \<le> MAX_RETRIES \<and> (truthy_opt (base_url s) \<longrightarrow> 1 \<le> k)
     \<and> (v = JNull \<or>
           (\<exists>n r. length (trace s) \<le> n \<and> n < length (trace s')
              \<and> post_at env n = PostResponse r
              \<and> ((status_code r = 202 \<and> v = accepted) \<or> decoded_from lib r v)))"
proof (cases "truthy_opt (base_url s)")
  case True
  then show ?thesis
    using send_loop_summary[of lib env request "[0..<MAX_RETRIES]" s]
    by (simp add: send_mcp_request_def) (simp add: MAX_RETRIES_def)
next
  case False
  then show ?thesis
    by (simp add: send_mcp_request_def) (rule exI[of _ 0], simp)
qed

lemma handle_response_404:
  "status_code r = 404 \<Longrightarrow>
   handle_response lib attempt r s = (Inr (Return JNull), s\<lparr>session_id := None, initialized := False\<rparr>)"
  by (simp add: handle_response_def pret_def adopt_session_def split: option.splits)

lemma send_loop_404:
  assumes "post_at env (length (trace s)) = PostResponse r" and "status_code r = 404"
  shows "send_loop lib env request (attempt # rest) s
           = (Inr JNull, (emit (Post (mcp_url s) (request_headers s) request) s)
                \<lparr>session_id := None, initialized := False\<rparr>)"
  using assms by (simp add: attempt_once_response handle_response_404 pbind_def pret_def)

lemma str_inject [simp]: "(str a = str b) = (a = b)"
proof -
  have "inj (of_char :: char \<Rightarrow> nat)" by (rule inj_onI) simp
  then show ?thesis by (simp add: str_def inj_map_eq_map)
qed

lemma str_empty [simp]: "(str a = []) = (a = [])" "([] = str a) = (a = [])"
  by (auto simp add: str_def)

lemma str_append: "str (a @ b) = str a @ str b"
  by (simp add: str_def)

lemma json_is_not_event_stream:
  "\<not> contains (str ''text/event-stream'') (str ''application/json'')"
  by (simp add: str_def startswith_def)

lemma handle_response_undecodable:
  "status_code r = 200 \<Longrightarrow> content_type r = Some (str ''application/json'') \<Longrightarrow>
   json_loads lib (body_text r) = Inl JSONDecodeError \<Longrightarrow>
   handle_response lib attempt r s = (Inr Next, adopt_session r s)"
  by (simp add: handle_response_def pret_def json_is_not_event_stream)

lemma handle_response_decoded:
  "status_code r = 200 \<Longrightarrow> content_type r = Some (str ''application/json'') \<Longrightarrow>
   json_loads lib (body_text r) = Inr v \<Longrightarrow>
   handle_response lib attempt r s = (Inr (Return v), adopt_session r s)"
  by (simp add: handle_response_def pret_def json_is_not_event_stream)

lemma plain_response_simps [simp]:
  "status_code (plain_response code body) = code"
  "content_type (plain_response code body) = Some (str ''application/json'')"
  "body_text (plain_response code body) = body"
  "adopt_session (plain_response code body) s = s"
  by (simp_all add: plain_response_def adopt_session_def)

lemma demo_lib_loads:
  "json_loads demo_lib (str ''payload'') = Inr ok_payload"
  "json_loads demo_lib (str ''{}'') = Inr (JObj [])"
  "json_loads demo_lib (str ''not json'') = Inl JSONDecodeError"
  "json_loads demo_lib (str ''not json either'') = Inl JSONDecodeError"
  by (simp_all add: demo_lib_def table_lib_def)

lemma resolved_client_post:
  "emit (Post (mcp_url (resolved_client\<lparr>trace := tr\<rparr>))
               (request_headers (resolved_client\<lparr>trace := tr\<rparr>)) request)
     (resolved_client\<lparr>trace := tr\<rparr>)
   = resolved_client\<lparr>trace := tr @ [Post (str ''http://localhost:5678/mcp/demo'')
                                       (request_headers resolved_client) request]\<rparr>"
  by (simp add: emit_def mcp_url_def opt_text_def request_headers_def resolved_client_def
        new_client_def str_append[symmetric])

lemma attempt_undecodable_first:
  "attempt_once demo_lib (undecodable_first_env later) request attempt
     (resolved_client\<lparr>trace := []\<rparr>)
   = (Inr Next, resolved_client\<lparr>trace := [Post (str ''http://localhost:5678/mcp/demo'')
                                       (request_headers resolved_client) request]\<rparr>)"
  using attempt_once_response[of "undecodable_first_env later" "resolved_client\<lparr>trace := []\<rparr>"
          "plain_response 200 (str ''not json'')" demo_lib request attempt]
  by (simp add: undecodable_first_env_def handle_response_undecodable demo_lib_loads
        resolved_client_post)

lemma attempt_later:
  "tr \<noteq> [] \<Longrightarrow>
   attempt_once demo_lib (undecodable_first_env later) request attempt
     (resolved_client\<lparr>trace := tr\<rparr>)
   = (case handle_response demo_lib attempt (plain_response 200 later)
             (resolved_client\<lparr>trace := tr @ [Post (str ''http://localhost:5678/mcp/demo'')
                                       (request_headers resolved_client) request]\<rparr>) of
        (Inr fl, s') \<Rightarrow> (Inr fl, s')
      | (Inl e, s') \<Rightarrow>
          (if attempt < MAX_RETRIES - 1 then (Inr Next, emit (Sleep (2 ^ attempt)) s')
           else (Inr (Return JNull), s')))"
  using attempt_once_response[of "undecodable_first_env later" "resolved_client\<lparr>trace := tr\<rparr>"
          "plain_response 200 later" demo_lib request attempt]
  by (simp add: undecodable_first_env_def resolved_client_post)

lemma resolved_client_trace [simp]: "resolved_client\<lparr>trace := []\<rparr> = resolved_client"
  by (simp add: resolved_client_def new_client_def)

text \<open>
  Claim C9. \<open>send_mcp_request\<close> never raises: for every request, client state and
  behaviour of the network it returns a value. The value is \<open>None\<close> unless one of the
  responses received during the call was a 202, and the value is the fixed
  acknowledgement, or was a 200, and the value is what that response decodes to. So
  timeouts, connection errors, other statuses, undecodable bodies and exhausted
  retries all end in \<open>None\<close>.
\<close>

theorem transport_never_raises:
  "\<exists>v s'. send_mcp_request lib env request s = (Inr v, s')
     \<and> (v = JNull \<or>
           (\<exists>n r. length (trace s) \<le> n \<and> n < length (trace s')
              \<and> post_at env n = PostResponse r
              \<and> ((status_code r = 202 \<and> v = accepted) \<or> decoded_from lib r v)))"
  using send_mcp_request_summary[of lib env request s] by blast

theorem transport_never_raises_witness:
  "(\<exists>v s'. send_mcp_request demo_lib (constant_env ProbeError PostTimeout) ping resolved_client
              = (Inr v, s'))
   \<and> fst (send_mcp_request demo_lib (constant_env ProbeError PostTimeout) ping resolved_client)
       = Inr JNull"
  using transport_never_raises[of demo_lib "constant_env ProbeError PostTimeout" ping
          resolved_client]
  by (auto simp add: constant_env_def)

text \<open>
  Claim C10. A transport call changes no attribute of the client other than
  \<open>session_id\<close> and \<open>initialized\<close>: \<open>endpoint_path\<close>, \<open>base_url\<close>,
  \<open>available_tools\<close>, \<open>server_capabilities\<close> and \<open>protocol_version\<close> are as before,
  whatever the server answers. When the answer to an attempt is a 404, the state after
  it is the state before it with the request logged, \<open>session_id\<close> cleared (also one
  just adopted from the response) and \<open>initialized\<close> false.
\<close>

theorem session_expiry_changes_session_only:
  "only_session_changed s (snd (send_mcp_request lib env request s))
   \<and> (post_at env (length (trace s)) = PostResponse r \<and> status_code r = 404 \<longrightarrow>
        snd (send_loop lib env request (attempt # rest) s)
          = (emit (Post (mcp_url s) (request_headers s) request) s)
              \<lparr>session_id := None, initialized := False\<rparr>)"
proof (intro conjI impI)
  show "only_session_changed s (snd (send_mcp_request lib env request s))"
    using send_mcp_request_summary[of lib env request s] by auto
next
  assume "post_at env (length (trace s)) = PostResponse r \<and> status_code r = 404"
  then show "snd (send_loop lib env request (attempt # rest) s)
          = (emit (Post (mcp_url s) (request_headers s) request) s)
              \<lparr>session_id := None, initialized := False\<rparr>"
    using send_loop_404[of env s r lib request attempt rest] by simp
qed

theorem session_expiry_changes_session_only_witness:
  "snd (send_mcp_request demo_lib
          (constant_env ProbeError (PostResponse (plain_response 404 (str ''gone'')))) ping
          (resolved_client\<lparr>session_id := Some (str ''abc''), initialized := True\<rparr>))
     = resolved_client\<lparr>session_id := None, initialized := False,
         trace := [Post (str ''http://localhost:5678/mcp/demo'')
                     (request_headers (resolved_client\<lparr>session_id := Some (str ''abc'')\<rparr>)) ping]\<rparr>"
  using session_expiry_changes_session_only[of
          "resolved_client\<lparr>session_id := Some (str ''abc''), initialized := True\<rparr>"
          demo_lib "constant_env ProbeError (PostResponse (plain_response 404 (str ''gone'')))"
          ping "plain_response 404 (str ''gone'')" 0 "[1, 2]"]
  by (simp add: send_mcp_request_def attempts_list constant_env_def plain_response_def
        resolved_client_def new_client_def emit_def mcp_url_def opt_text_def request_headers_def
        str_def)

text \<open>
  Claim C3, evaluated on the code. A 200 whose body does not decode falls out of the
  \<open>if\<close> without a \<open>return\<close>, so the loop goes on to the next attempt: against a
  server that always sends such a body the request is posted three times before the call
  returns \<open>None\<close>, and when the second answer decodes the call returns that payload.
\<close>

theorem undecodable_body_is_retried:
  "send_mcp_request demo_lib (undecodable_first_env (str ''not json either'')) ping resolved_client
     = (Inr JNull,
        resolved_client\<lparr>trace :=
          [Post (str ''http://localhost:5678/mcp/demo'') (request_headers resolved_client) ping,
           Post (str ''http://localhost:5678/mcp/demo'') (request_headers resolved_client) ping,
           Post (str ''http://localhost:5678/mcp/demo'') (request_headers resolved_client) ping]\<rparr>)
   \<and> send_mcp_request demo_lib (undecodable_first_env (str ''payload'')) ping resolved_client
     = (Inr ok_payload,
        resolved_client\<lparr>trace :=
          [Post (str ''http://localhost:5678/mcp/demo'') (request_headers resolved_client) ping,
           Post (str ''http://localhost:5678/mcp/demo'') (request_headers resolved_client) ping]\<rparr>)"
  using attempt_undecodable_first[of "str ''not json either''" ping 0]
        attempt_undecodable_first[of "str ''payload''" ping 0]
  by (simp add: send_mcp_request_def attempts_list resolved_client_simps pbind_run
        attempt_later handle_response_undecodable handle_response_decoded demo_lib_loads
        pret_def)

text \<open>
  Claim C4. When an attempt of \<open>send_mcp_request\<close> is answered with HTTP 400, the call
  returns \<open>None\<close> on that attempt: whatever attempts remain (\<open>rest\<close>) are not made, and
  the log grows by the one request only, with no backoff sleep. In particular a call
  whose first answer is a 400 posts exactly once.
\<close>

theorem bad_request_is_not_retried:
  assumes "post_at env (length (trace s)) = PostResponse r" and "status_code r = 400"
  shows "send_loop lib env request (attempt # rest) s
           = (Inr JNull, adopt_session r (emit (Post (mcp_url s) (request_headers s) request) s))
         \<and> (truthy_opt (base_url s) \<longrightarrow>
              send_mcp_request lib env request s
                = (Inr JNull,
                   adopt_session r (emit (Post (mcp_url s) (request_headers s) request) s)))"
  using assms
  by (simp add: send_mcp_request_def attempts_list attempt_once_response handle_response_400
        pbind_def pret_def)

theorem bad_request_is_not_retried_witness:
  "send_mcp_request (table_lib [])
      (constant_env ProbeError (PostResponse (plain_response 400 (str ''bad request'')))) ping
      resolved_client
     = (Inr JNull,
        emit (Post (mcp_url resolved_client) (request_headers resolved_client) ping)
          resolved_client)
   \<and> trace (snd (send_mcp_request (table_lib [])
      (constant_env ProbeError (PostResponse (plain_response 400 (str ''bad request'')))) ping
      resolved_client))
     = [Post (mcp_url resolved_client) (request_headers resolved_client) ping]"
  using bad_request_is_not_retried[of
      "constant_env ProbeError (PostResponse (plain_response 400 (str ''bad request'')))"
      resolved_client "plain_response 400 (str ''bad request'')" "table_lib []" ping 0 "[1, 2]"]
  by (simp add: constant_env_def plain_response_def adopt_session_def emit_def
        resolved_client_simps str_def)

section \<open>Properties of the resolver\<close>

lemma probe_hosts_step:
  "probe_hosts env (host # rest) s =
     (if probe_at env (length (trace s)) = ProbeStatus 200
      then (Inr (True, build_url host DEFAULT_PORT []), emit (probe_url host) s)
      else probe_hosts env rest (emit (probe_url host) s))"
  by (cases "probe_at env (length (trace s))")
     (simp_all add: Let_def pbind_def ptry_def http_get_def pret_def probe_url_def)

declare probe_hosts.simps(2) [simp del]

lemma emit_trace [simp]: "trace (emit e s) = trace s @ [e]"
  by (simp add: emit_def)

lemma emit_emit_trace [simp]: "(emit e s)\<lparr>trace := tr\<rparr> = s\<lparr>trace := tr\<rparr>"
  by (simp add: emit_def)

lemma probe_hosts_none:
  "\<forall>j<length hosts. probe_at env (length (trace s) + j) \<noteq> ProbeStatus 200 \<Longrightarrow>
   probe_hosts env hosts s
     = (Inr (False, str ''No n8n instance accessible''),
        s\<lparr>trace := trace s @ map probe_url hosts\<rparr>)"
proof (induction hosts arbitrary: s)
  case Nil
  show ?case by (simp add: pret_def)
next
  case (Cons host rest)
  have first: "probe_at env (length (trace s)) \<noteq> ProbeStatus 200"
    using Cons.prems by force
  have later: "\<forall>j<length rest. probe_at env (length (trace (emit (probe_url host) s)) + j)
                  \<noteq> ProbeStatus 200"
    using Cons.prems by force
  show ?case
    using first Cons.IH[OF later] by (simp add: probe_hosts_step)
qed

lemma probe_hosts_first:
  "i < length hosts \<Longrightarrow> probe_at env (length (trace s) + i) = ProbeStatus 200 \<Longrightarrow>
   \<forall>j<i. probe_at env (length (trace s) + j) \<noteq> ProbeStatus 200 \<Longrightarrow>
   probe_hosts env hosts s
     = (Inr (True, build_url (hosts ! i) DEFAULT_PORT []),
        s\<lparr>trace := trace s @ map probe_url (take (Suc i) hosts)\<rparr>)"
proof (induction hosts arbitrary: s i)
  case Nil
  then show ?case by simp
next
  case (Cons host rest)
  show ?case
  proof (cases i)
    case 0
    with Cons.prems show ?thesis by (simp add: probe_hosts_step emit_def)
  next
    case (Suc i')
    have first: "probe_at env (length (trace s)) \<noteq> ProbeStatus 200"
      using Cons.prems(3) Suc by force
    have a: "i' < length rest" using Cons.prems(1) Suc by simp
    have b: "probe_at env (length (trace (emit (probe_url host) s)) + i') = ProbeStatus 200"
      using Cons.prems(2) Suc by simp
    have c: "\<forall>j<i'. probe_at env (length (trace (emit (probe_url host) s)) + j) \<noteq> ProbeStatus 200"
      using Cons.prems(3) Suc by force
    show ?thesis
      using first Cons.IH[OF a b c] Suc by (simp add: probe_hosts_step)
  qed
qed

text \<open>
  Claim C7. For every list of candidate hosts: when the probe of the host at position
  \<open>i\<close> is answered with status 200 and no probe before it is (they raise, or answer with
  another status), the connectivity test returns success with that host's URL, having
  probed the hosts up to \<open>i\<close> and none after it; when no probe is answered with 200
  it returns failure with the fixed message, having probed every host. In both cases it
  returns a value: no probe failure is raised to the caller. \<open>test_n8n_connectivity\<close>
  is this loop over \<open>DOCKER_HOSTS\<close>.
\<close>

theorem resolver_returns_first_reachable:
  "(i < length hosts \<and> probe_at env (length (trace s) + i) = ProbeStatus 200
      \<and> (\<forall>j<i. probe_at env (length (trace s) + j) \<noteq> ProbeStatus 200)
     \<longrightarrow> probe_hosts env hosts s
           = (Inr (True, build_url (hosts ! i) DEFAULT_PORT []),
              s\<lparr>trace := trace s @ map probe_url (take (Suc i) hosts)\<rparr>))
   \<and> ((\<forall>j<length hosts. probe_at env (length (trace s) + j) \<noteq> ProbeStatus 200)
     \<longrightarrow> probe_hosts env hosts s
           = (Inr (False, str ''No n8n instance accessible''),
              s\<lparr>trace := trace s @ map probe_url hosts\<rparr>))
   \<and> test_n8n_connectivity env s = probe_hosts env DOCKER_HOSTS s"
  using probe_hosts_first[of i hosts env s] probe_hosts_none[of hosts env s]
  by (simp add: test_n8n_connectivity_def)

lemma dec_port: "dec DEFAULT_PORT = str ''5678''"
  by (simp add: DEFAULT_PORT_def str_def)

declare dec.simps [simp del]

lemma docker_urls:
  "build_url (str ''127.0.0.1'') DEFAULT_PORT [] = str ''http://127.0.0.1:5678''"
  by (simp add: build_url_def dec_port str_append[symmetric])

theorem resolver_returns_first_reachable_witness:
  "test_n8n_connectivity (probe_script [ProbeError, ProbeStatus 503, ProbeStatus 200, ProbeStatus 200])
      (new_client (str ''/mcp/demo'') (str ''2025-01-01''))
     = (Inr (True, str ''http://127.0.0.1:5678''),
        (new_client (str ''/mcp/demo'') (str ''2025-01-01''))
          \<lparr>trace := [probe_url (str ''host.docker.internal''), probe_url (str ''localhost''),
                      probe_url (str ''127.0.0.1'')]\<rparr>)
   \<and> test_n8n_connectivity (probe_script [])
      (new_client (str ''/mcp/demo'') (str ''2025-01-01''))
     = (Inr (False, str ''No n8n instance accessible''),
        (new_client (str ''/mcp/demo'') (str ''2025-01-01''))
          \<lparr>trace := map probe_url DOCKER_HOSTS\<rparr>)"
proof -
  let ?e = "probe_script [ProbeError, ProbeStatus 503, ProbeStatus 200, ProbeStatus 200]"
  let ?s = "new_client (str ''/mcp/demo'') (str ''2025-01-01'')"
  have tr: "trace ?s = []" by (simp add: new_client_def)
  have h1: "(2::nat) < length DOCKER_HOSTS" by (simp add: DOCKER_HOSTS_def)
  have h2: "probe_at ?e (length (trace ?s) + 2) = ProbeStatus 200"
    by (simp add: tr probe_script_def)
  have h3: "\<forall>j<2. probe_at ?e (length (trace ?s) + j) \<noteq> ProbeStatus 200"
  proof (intro allI impI)
    fix j :: nat
    assume "j < 2"
    then have "j = 0 \<or> j = 1" by arith
    then show "probe_at ?e (length (trace ?s) + j) \<noteq> ProbeStatus 200"
      by (auto simp add: tr probe_script_def)
  qed
  have h4: "\<forall>j<length DOCKER_HOSTS. probe_at (probe_script []) (length (trace ?s) + j)
              \<noteq> ProbeStatus 200"
    by (simp add: probe_script_def)
  have a: "probe_hosts ?e DOCKER_HOSTS ?s
             = (Inr (True, build_url (DOCKER_HOSTS ! 2) DEFAULT_PORT []),
                ?s\<lparr>trace := trace ?s @ map probe_url (take (Suc 2) DOCKER_HOSTS)\<rparr>)"
    using resolver_returns_first_reachable[of 2 DOCKER_HOSTS ?e ?s] h1 h2 h3 by blast
  have b: "probe_hosts (probe_script []) DOCKER_HOSTS ?s
             = (Inr (False, str ''No n8n instance accessible''),
                ?s\<lparr>trace := trace ?s @ map probe_url DOCKER_HOSTS\<rparr>)"
    using resolver_returns_first_reachable[of 0 DOCKER_HOSTS "probe_script []" ?s] h4 by blast
  have t3: "map probe_url (take (Suc 2) DOCKER_HOSTS)
              = [probe_url (str ''host.docker.internal''), probe_url (str ''localhost''),
                 probe_url (str ''127.0.0.1'')]"
    by (simp add: DOCKER_HOSTS_def)
  have n2: "build_url (DOCKER_HOSTS ! 2) DEFAULT_PORT [] = str ''http://127.0.0.1:5678''"
    by (simp add: DOCKER_HOSTS_def docker_urls)
  show ?thesis
    unfolding test_n8n_connectivity_def a b t3 n2 tr by simp
qed

section \<open>Properties of the directive parser\<close>

lemma startswith_self [simp]: "startswith (sep @ rest) sep"
  by (simp add: startswith_def)

lemma contains_first_cut:
  "sep \<noteq> [] \<Longrightarrow> contains sep (before @ sep @ rest)"
proof (induction before)
  case Nil
  then obtain c cs where "sep = c # cs" by (cases sep) auto
  then show ?case using startswith_self[of sep rest] by simp
next
  case (Cons b before)
  then show ?case by simp
qed

lemma split_once_first_cut:
  "sep \<noteq> [] \<Longrightarrow> \<forall>k<length before. \<not> startswith (drop k (before @ sep @ rest)) sep \<Longrightarrow>
   split_once sep (before @ sep @ rest) = [before, rest]"
proof (induction before)
  case Nil
  then obtain c cs where c: "sep = c # cs" by (cases sep) auto
  have "split_once sep ((c # cs) @ rest) = [[], drop (length sep) ((c # cs) @ rest)]"
    using startswith_self[of sep rest] c by simp
  then show ?case using c by simp
next
  case (Cons b before)
  have first: "\<not> startswith (b # before @ sep @ rest) sep"
    using Cons.prems(2) by force
  have later: "\<forall>k<length before. \<not> startswith (drop k (before @ sep @ rest)) sep"
    using Cons.prems(2) by force
  show ?case
    using first Cons.IH[OF Cons.prems(1) later] by simp
qed

lemma first_line: "item (split_once [10] t) 0 = Inr (takeWhile (\<lambda>c. c \<noteq> 10) t)"
proof -
  have "\<exists>ws. split_once [10] t = takeWhile (\<lambda>c. c \<noteq> 10) t # ws"
    by (induction t) (auto simp add: startswith_def)
  then show ?thesis by (auto simp add: item_def)
qed

lemma item_pair [simp]: "item [a, b] (Suc 0) = Inr b"
  by (simp add: item_def)

lemma split_once_two:
  "sep \<noteq> [] \<Longrightarrow> contains sep text \<Longrightarrow> \<exists>a b. split_once sep text = [a, b]"
  by (induction "text") auto

lemma extract_name_first_cut:
  assumes "first_cut (str ''TOOL:'') text before rest"
  shows "extract_name text = Inr (Some (strip (takeWhile (\<lambda>c. c \<noteq> 10) (strip rest))))"
proof -
  have t: "text = before @ str ''TOOL:'' @ rest"
    and f: "\<forall>k<length before. \<not> startswith (drop k (before @ str ''TOOL:'' @ rest)) (str ''TOOL:'')"
    using assms by (auto simp add: first_cut_def list_all_iff)
  have ne: "str ''TOOL:'' \<noteq> []" by simp
  show ?thesis
    unfolding extract_name_def t
    using contains_first_cut[OF ne, of before rest] split_once_first_cut[OF ne f]
    by (simp add: ebind_def first_line)
qed

lemma extract_name_returns: "\<exists>n. extract_name text = Inr n"
proof (cases "contains (str ''TOOL:'') text")
  case True
  then obtain a b where "split_once (str ''TOOL:'') text = [a, b]"
    using split_once_two[of "str ''TOOL:''" "text"] by auto
  then show ?thesis using True by (simp add: extract_name_def ebind_def first_line)
next
  case False
  then show ?thesis by (simp add: extract_name_def)
qed

lemma find_args_json_returns: "\<exists>r. find_args_json text = Inr r"
proof (cases "contains (str ''ARGUMENTS:'') text")
  case True
  then obtain a b where "split_once (str ''ARGUMENTS:'') text = [a, b]"
    using split_once_two[of "str ''ARGUMENTS:''" "text"] by auto
  then show ?thesis using True by (simp add: find_args_json_def ebind_def Let_def)
next
  case False
  then show ?thesis by (simp add: find_args_json_def)
qed

lemma find_from_absent: "c \<notin> set pre \<Longrightarrow> find_from c (pre @ c # body) i = i + int (length pre)"
  by (induction pre arbitrary: i) auto

lemma brace_scan_never:
  "\<forall>n. 0 < n \<and> n \<le> length cs \<longrightarrow> 0 < c + depth (take n cs) \<Longrightarrow> brace_scan cs i c = -1"
proof (induction cs arbitrary: i c)
  case Nil
  show ?case by simp
next
  case (Cons x cs)
  let ?d = "if x = 123 then 1 else if x = 125 then - 1 else (0::int)"
  have one: "0 < c + ?d"
    using Cons.prems[rule_format, of 1] by simp
  have rest: "\<forall>n. 0 < n \<and> n \<le> length cs \<longrightarrow> 0 < (c + ?d) + depth (take n cs)"
  proof (intro allI impI)
    fix n assume "0 < n \<and> n \<le> length cs"
    then show "0 < (c + ?d) + depth (take n cs)"
      using Cons.prems[rule_format, of "Suc n"] by (simp add: algebra_simps)
  qed
  show ?case
    using one Cons.IH[OF rest, of "i + 1"] by (auto split: if_splits)
qed

lemma never_closes_scan: "never_closes t \<Longrightarrow> brace_scan t i 0 = -1"
proof -
  assume "never_closes t"
  then have a: "\<forall>n\<in>set [1..<Suc (length t)]. 0 < depth (take n t)"
    by (simp only: never_closes_def list_all_iff)
  have "\<forall>n. 0 < n \<and> n \<le> length t \<longrightarrow> 0 < 0 + depth (take n t)"
  proof (intro allI impI)
    fix n assume "0 < n \<and> n \<le> length t"
    then have "n \<in> set [1..<Suc (length t)]" by auto
    then show "0 < 0 + depth (take n t)" using a by auto
  qed
  then show ?thesis by (rule brace_scan_never)
qed

lemma find_args_json_unclosed:
  assumes "first_cut (str ''ARGUMENTS:'') text before rest"
    and "strip rest = pre @ 123 # body" and "123 \<notin> set pre" and "never_closes (123 # body)"
  shows "find_args_json text = Inr None"
proof -
  have t: "text = before @ str ''ARGUMENTS:'' @ rest"
    and f: "\<forall>k<length before. \<not> startswith (drop k (before @ str ''ARGUMENTS:'' @ rest))
              (str ''ARGUMENTS:'')"
    using assms(1) by (auto simp add: first_cut_def list_all_iff)
  have ne: "str ''ARGUMENTS:'' \<noteq> []" by simp
  have idx: "find_char (pre @ 123 # body) 123 = int (length pre)"
    using find_from_absent[OF assms(3), of body 0] by (simp add: find_char_def)
  show ?thesis
    unfolding find_args_json_def t
    using contains_first_cut[OF ne, of before rest] split_once_first_cut[OF ne f]
      never_closes_scan[OF assms(4), of "int (length pre)"]
    by (simp add: ebind_def assms(2) idx Let_def)
qed


lemma extract_tool_call_parts:
  "contains (str ''ACTION:'') text \<Longrightarrow> contains (str ''call_tool'') text \<Longrightarrow>
   extract_name text = Inr name \<Longrightarrow> find_args_json text = Inr found \<Longrightarrow>
   extract_tool_call lib text
     = (case found of
          None \<Rightarrow> (name, JObj [])
        | Some args_json \<Rightarrow>
            (case json_loads lib args_json of
               Inr arguments \<Rightarrow> (name, arguments)
             | Inl e \<Rightarrow> if e = JSONDecodeError then (name, JObj []) else (None, JObj [])))"
  by (simp add: extract_tool_call_def extract_arguments_def ebind_def
        split: option.splits sum.splits)

lemma table_lib_raises: "json_loads (table_lib table) t = Inl e \<Longrightarrow> e = JSONDecodeError"
  by (simp add: table_lib_def split: option.splits)

lemma has_digit_run_replicate:
  "has_digit_run limit (replicate m 49 @ rest) n = has_digit_run limit rest (n + m)"
  by (induction m arbitrary: n) simp_all

lemma brace_scan_replicate:
  "brace_scan (replicate m 49 @ rest) i c = brace_scan rest (i + int m) c"
  by (induction m arbitrary: i) (simp_all add: algebra_simps)

lemma long_integer_simps:
  "length long_integer = 5000"
  "has_digit_run limit (long_integer @ rest) n = has_digit_run limit rest (n + 5000)"
  "brace_scan (long_integer @ rest) i c = brace_scan rest (i + 5000) c"
  by (simp_all add: long_integer_def has_digit_run_replicate brace_scan_replicate)

lemmas parser_eval =
  str_def startswith_def strip_def is_space_def directive_unclosed_def directive_closed_def
  first_cut_def never_closes_def upt_rec

text \<open>
  Claim C8, as the code has it. A text that lacks \<open>ACTION:\<close> or \<open>call_tool\<close> gives no
  directive: no tool name and the empty argument map. A text that has both gives the tool
  name taken after the first \<open>TOOL:\<close> (the first line of what follows, stripped),
  unless \<open>json.loads\<close> raises an exception other than \<open>JSONDecodeError\<close> on the object
  found after \<open>ARGUMENTS:\<close>, and no tool name when there is no \<open>TOOL:\<close>. The argument
  map is empty when the object found after \<open>ARGUMENTS:\<close> is rejected with a
  \<open>JSONDecodeError\<close>, and when the braces after \<open>ARGUMENTS:\<close> never close, so that no
  object is found at all. When \<open>json.loads\<close> raises another exception on the object
  found, the result is no directive at all: no tool name and the empty argument map.
\<close>

theorem directive_parser_keeps_tool_name:
  "(\<not> contains (str ''ACTION:'') text \<or> \<not> contains (str ''call_tool'') text
      \<longrightarrow> extract_tool_call lib text = (None, JObj []))
   \<and> (contains (str ''ACTION:'') text \<and> contains (str ''call_tool'') text \<longrightarrow>
        (first_cut (str ''TOOL:'') text before rest
           \<and> (\<forall>a e. find_args_json text = Inr (Some a) \<and> json_loads lib a = Inl e
                  \<longrightarrow> e = JSONDecodeError)
           \<longrightarrow> fst (extract_tool_call lib text)
                 = Some (strip (takeWhile (\<lambda>c. c \<noteq> 10) (strip rest))))
        \<and> (\<not> contains (str ''TOOL:'') text \<longrightarrow> fst (extract_tool_call lib text) = None)
        \<and> (find_args_json text = Inr (Some args_json)
             \<and> json_loads lib args_json = Inl JSONDecodeError
             \<longrightarrow> snd (extract_tool_call lib text) = JObj [])
        \<and> (first_cut (str ''ARGUMENTS:'') text before' rest'
             \<and> strip rest' = pre @ 123 # body \<and> 123 \<notin> set pre \<and> never_closes (123 # body)
             \<longrightarrow> snd (extract_tool_call lib text) = JObj [])
        \<and> (find_args_json text = Inr (Some args_json)
             \<and> json_loads lib args_json = Inl other \<and> other \<noteq> JSONDecodeError
             \<longrightarrow> extract_tool_call lib text = (None, JObj [])))"
proof (intro conjI impI)
  assume "\<not> contains (str ''ACTION:'') text \<or> \<not> contains (str ''call_tool'') text"
  then show "extract_tool_call lib text = (None, JObj [])"
    by (auto simp add: extract_tool_call_def)
next
  assume m: "contains (str ''ACTION:'') text \<and> contains (str ''call_tool'') text"
    and c: "first_cut (str ''TOOL:'') text before rest
           \<and> (\<forall>a e. find_args_json text = Inr (Some a) \<and> json_loads lib a = Inl e
                  \<longrightarrow> e = JSONDecodeError)"
  obtain found where f: "find_args_json text = Inr found"
    using find_args_json_returns by blast
  have n: "extract_name text = Inr (Some (strip (takeWhile (\<lambda>c. c \<noteq> 10) (strip rest))))"
    using c extract_name_first_cut by blast
  show "fst (extract_tool_call lib text)
          = Some (strip (takeWhile (\<lambda>c. c \<noteq> 10) (strip rest)))"
  proof (cases found)
    case None
    then show ?thesis using m extract_tool_call_parts[OF _ _ n f] by simp
  next
    case (Some a)
    show ?thesis
    proof (cases "json_loads lib a")
      case (Inr v)
      then show ?thesis using m Some extract_tool_call_parts[OF _ _ n f] by simp
    next
      case (Inl e)
      then have "e = JSONDecodeError" using c f Some by blast
      then show ?thesis using m Some Inl extract_tool_call_parts[OF _ _ n f] by simp
    qed
  qed
next
  assume m: "contains (str ''ACTION:'') text \<and> contains (str ''call_tool'') text"
    and c: "\<not> contains (str ''TOOL:'') text"
  obtain found where f: "find_args_json text = Inr found"
    using find_args_json_returns by blast
  have n: "extract_name text = Inr None" using c by (simp add: extract_name_def)
  show "fst (extract_tool_call lib text) = None"
    using m extract_tool_call_parts[OF _ _ n f]
    by (simp split: option.splits sum.splits)
next
  assume m: "contains (str ''ACTION:'') text \<and> contains (str ''call_tool'') text"
    and c: "find_args_json text = Inr (Some args_json)
             \<and> json_loads lib args_json = Inl JSONDecodeError"
  obtain name where n: "extract_name text = Inr name"
    using extract_name_returns by blast
  show "snd (extract_tool_call lib text) = JObj []"
    using m c extract_tool_call_parts[OF _ _ n, of "Some args_json" lib] by simp
next
  assume m: "contains (str ''ACTION:'') text \<and> contains (str ''call_tool'') text"
    and c: "first_cut (str ''ARGUMENTS:'') text before' rest'
             \<and> strip rest' = pre @ 123 # body \<and> 123 \<notin> set pre \<and> never_closes (123 # body)"
  obtain name where n: "extract_name text = Inr name"
    using extract_name_returns by blast
  have f: "find_args_json text = Inr None"
    using c find_args_json_unclosed[of "text" before' rest' pre body] by simp
  show "snd (extract_tool_call lib text) = JObj []"
    using m extract_tool_call_parts[OF _ _ n f] by simp
next
  assume m: "contains (str ''ACTION:'') text \<and> contains (str ''call_tool'') text"
    and c: "find_args_json text = Inr (Some args_json)
             \<and> json_loads lib args_json = Inl other \<and> other \<noteq> JSONDecodeError"
  obtain name where n: "extract_name text = Inr name"
    using extract_name_returns by blast
  show "extract_tool_call lib text = (None, JObj [])"
    using m c extract_tool_call_parts[OF _ _ n, of "Some args_json" lib] by simp
qed

theorem directive_parser_keeps_tool_name_witness:
  "extract_tool_call demo_lib directive_unclosed = (Some (str ''Send_Email''), JObj [])
   \<and> extract_tool_call demo_lib directive_closed = (Some (str ''Send_Email''), JObj [])
   \<and> extract_tool_call demo_lib (str ''TOOL: Send_Email'') = (None, JObj [])"
proof -
  let ?b1 = "str ''ACTION: call_tool'' @ [10]"
  let ?r1 = "str '' Send_Email'' @ [10] @ str ''ARGUMENTS: {To: {a@b.com}''"
  let ?r1c = "str '' Send_Email'' @ [10] @ str ''ARGUMENTS: {To: a@b.com}''"
  let ?b2 = "str ''ACTION: call_tool'' @ [10] @ str ''TOOL: Send_Email'' @ [10]"
  let ?r2 = "str '' {To: {a@b.com}''"
  have m: "contains (str ''ACTION:'') directive_unclosed \<and> contains (str ''call_tool'') directive_unclosed"
    by (simp add: parser_eval)
  have mc: "contains (str ''ACTION:'') directive_closed \<and> contains (str ''call_tool'') directive_closed"
    by (simp add: parser_eval)
  have c1: "first_cut (str ''TOOL:'') directive_unclosed ?b1 ?r1" by (simp add: parser_eval)
  have c1c: "first_cut (str ''TOOL:'') directive_closed ?b1 ?r1c" by (simp add: parser_eval)
  have n1: "strip (takeWhile (\<lambda>c. c \<noteq> 10) (strip ?r1)) = str ''Send_Email''"
    by (simp add: parser_eval)
  have n1c: "strip (takeWhile (\<lambda>c. c \<noteq> 10) (strip ?r1c)) = str ''Send_Email''"
    by (simp add: parser_eval)
  have c2: "first_cut (str ''ARGUMENTS:'') directive_unclosed ?b2 ?r2
              \<and> strip ?r2 = [] @ 123 # str ''To: {a@b.com}'' \<and> 123 \<notin> set ([] :: nat list)
              \<and> never_closes (123 # str ''To: {a@b.com}'')"
    by (simp add: parser_eval)
  have d: "\<forall>text a e. find_args_json text = Inr (Some a) \<and> json_loads demo_lib a = Inl e
             \<longrightarrow> e = JSONDecodeError"
    using table_lib_raises by (auto simp add: demo_lib_def)
  have f: "find_args_json directive_closed = Inr (Some (str ''{To: a@b.com}''))
             \<and> json_loads demo_lib (str ''{To: a@b.com}'') = Inl JSONDecodeError"
    by (simp add: find_args_json_def ebind_def item_def find_char_def Let_def demo_lib_def
          table_lib_def parser_eval)
  have no: "\<not> contains (str ''ACTION:'') (str ''TOOL: Send_Email'')
              \<or> \<not> contains (str ''call_tool'') (str ''TOOL: Send_Email'')"
    by (simp add: parser_eval)
  have u: "fst (extract_tool_call demo_lib directive_unclosed) = Some (str ''Send_Email'')
           \<and> snd (extract_tool_call demo_lib directive_unclosed) = JObj []"
    using directive_parser_keeps_tool_name[of directive_unclosed demo_lib ?b1 ?r1 "[]" ?b2 ?r2
            "[]" "str ''To: {a@b.com}''" JSONDecodeError] m c1 c2 n1 d
    by simp
  have c: "fst (extract_tool_call demo_lib directive_closed) = Some (str ''Send_Email'')
           \<and> snd (extract_tool_call demo_lib directive_closed) = JObj []"
    using directive_parser_keeps_tool_name[of directive_closed demo_lib ?b1 ?r1c
            "str ''{To: a@b.com}''" "[]" "[]" "[]" "[]" JSONDecodeError] mc c1c f n1c d
    by simp
  have n: "extract_tool_call demo_lib (str ''TOOL: Send_Email'') = (None, JObj [])"
    using directive_parser_keeps_tool_name[of "str ''TOOL: Send_Email''" demo_lib "[]" "[]"
            "[]" "[]" "[]" "[]" "[]" JSONDecodeError] no
    by blast
  show ?thesis using u c n by (simp add: prod_eq_iff)
qed

text \<open>
  The claim C8 read literally fails when the object after \<open>ARGUMENTS:\<close> fails to
  decode with an exception that is not a \<open>JSONDecodeError\<close>. The directive names the
  tool \<open>Send_Email\<close> and its arguments are the object \<open>{"n": 111...1}\<close> with an
  integer of 5000 digits; the braces close, the object is found, \<open>json.loads\<close> raises
  \<open>ValueError\<close> on it, and the parser returns no tool name.
\<close>

theorem oversized_integer_loses_tool_name:
  "contains (str ''ACTION:'') directive_long_integer
   \<and> contains (str ''call_tool'') directive_long_integer
   \<and> first_cut (str ''TOOL:'') directive_long_integer (str ''ACTION: call_tool'' @ [10])
       (str '' Send_Email'' @ [10] @ str ''ARGUMENTS: '' @ long_integer_object)
   \<and> find_args_json directive_long_integer = Inr (Some long_integer_object)
   \<and> json_loads (digit_limit_lib []) long_integer_object = Inl ValueError
   \<and> extract_tool_call (digit_limit_lib []) directive_long_integer = (None, JObj [])"
proof -
  have m: "contains (str ''ACTION:'') directive_long_integer
           \<and> contains (str ''call_tool'') directive_long_integer"
    by (simp add: directive_long_integer_def long_integer_object_def str_def startswith_def)
  have c: "first_cut (str ''TOOL:'') directive_long_integer (str ''ACTION: call_tool'' @ [10])
       (str '' Send_Email'' @ [10] @ str ''ARGUMENTS: '' @ long_integer_object)"
    by (simp add: directive_long_integer_def first_cut_def str_def startswith_def upt_rec)
  have f: "find_args_json directive_long_integer = Inr (Some long_integer_object)"
    by (simp add: find_args_json_def ebind_def item_def find_char_def Let_def
          directive_long_integer_def long_integer_object_def long_integer_simps
          str_def startswith_def strip_def is_space_def)
  have l: "json_loads (digit_limit_lib []) long_integer_object = Inl ValueError"
    by (simp add: digit_limit_lib_def long_integer_object_def long_integer_simps str_def)
  obtain name where n: "extract_name directive_long_integer = Inr name"
    using extract_name_returns by blast
  have e: "extract_tool_call (digit_limit_lib []) directive_long_integer = (None, JObj [])"
    using m l extract_tool_call_parts[OF _ _ n f, of "digit_limit_lib []"] by simp
  show ?thesis using m c f l e by simp
qed

section \<open>Properties of the dispatcher\<close>

lemma send_first_decoded:
  assumes "truthy_opt (base_url s)" and "post_at env (length (trace s)) = PostResponse r"
    and "status_code r = 200" and "content_type r = Some (str ''application/json'')"
    and "json_loads lib (body_text r) = Inr v"
  shows "send_mcp_request lib env request s
           = (Inr v, adopt_session r (emit (Post (mcp_url s) (request_headers s) request) s))"
  using assms
  by (simp add: send_mcp_request_def attempts_list attempt_once_response
        handle_response_decoded pbind_def pret_def)

lemma pbind_uuid4 [simp]:
  "pbind (uuid4 env) f s = f (uuid_at env (length (trace s))) (emit Uuid4 s)"
  by (simp add: pbind_def uuid4_def)

lemma pbind_plift [simp]:
  "pbind (plift r) f s = (case r of Inl e \<Rightarrow> (Inl e, s) | Inr x \<Rightarrow> f x s)"
  by (simp add: pbind_def plift_def split: sum.splits)

lemma call_tool_initialized:
  assumes "initialized s" and "serialise_arguments arguments = Inr args"
    and "send_mcp_request lib env
           (tool_request (uuid_at env (length (trace s))) tool_name (JObj args)) (emit Uuid4 s)
         = (Inr resp, s')"
  shows "call_tool lib env tool_name arguments s
           = (Inr (case render_response lib resp of
                     Inr out \<Rightarrow> out
                   | Inl e \<Rightarrow> tool_execution_error lib e), s')"
  using assms
  by (simp add: call_tool_def ptry_def pbind_run plift_def pret_def split: sum.splits)

lemma call_tool_unserialisable:
  "initialized s \<Longrightarrow> serialise_arguments arguments = Inl e \<Longrightarrow>
   call_tool lib env tool_name arguments s = (Inl e, s)"
  by (simp add: call_tool_def pbind_def pret_def plift_def)

lemma in_keys: "(k \<in> fst ` set kvs) = (map_of kvs k \<noteq> None)"
  by (simp add: map_of_eq_None_iff)

lemma render_falsy: "\<not> truthy resp \<Longrightarrow> render_response lib resp = Inr no_response_message"
  by (simp add: render_response_def)

lemma render_error:
  "kvs \<noteq> [] \<Longrightarrow> map_of kvs (str ''error'') = Some (JObj ekvs) \<Longrightarrow>
   render_response lib (JObj kvs)
     = Inr (mcp_error_message lib
              (case map_of ekvs (str ''code'') of Some c \<Rightarrow> c | None \<Rightarrow> JStr (str ''unknown''))
              (case map_of ekvs (str ''message'') of
                 Some m \<Rightarrow> m
               | None \<Rightarrow> JStr (str ''Unknown error'')))"
  by (simp add: render_response_def ebind_def in_keys)

lemma render_result:
  "kvs \<noteq> [] \<Longrightarrow> map_of kvs (str ''error'') = None \<Longrightarrow> map_of kvs (str ''result'') = Some v \<Longrightarrow>
   render_response lib (JObj kvs) = Inr (json_dumps v)"
  by (simp add: render_response_def ebind_def in_keys)

lemma render_other:
  "truthy resp \<Longrightarrow> lacks (str ''error'') resp \<Longrightarrow> lacks (str ''result'') resp \<Longrightarrow>
   render_response lib resp = Inr unexpected_format_message"
  by (cases resp) (simp_all add: render_response_def ebind_def in_keys lacks_def)

lemma render_type_error:
  "truthy resp \<Longrightarrow> \<forall>kvs. resp \<noteq> JObj kvs \<Longrightarrow>
   \<not> (lacks (str ''error'') resp \<and> lacks (str ''result'') resp) \<Longrightarrow>
   render_response lib resp = Inl TypeError"
  by (cases resp) (auto simp add: render_response_def ebind_def lacks_def)

lemma render_attribute_error:
  "map_of kvs (str ''error'') = Some ev \<Longrightarrow> \<forall>ekvs. ev \<noteq> JObj ekvs \<Longrightarrow>
   render_response lib (JObj kvs) = Inl AttributeError"
proof -
  assume a: "map_of kvs (str ''error'') = Some ev" and b: "\<forall>ekvs. ev \<noteq> JObj ekvs"
  have "kvs \<noteq> []" using a by auto
  moreover have "py_get ev (str ''code'') (JStr (str ''unknown'')) = Inl AttributeError"
    using b by (cases ev) simp_all
  ultimately show ?thesis
    using a by (simp add: render_response_def ebind_def in_keys)
qed

lemma dumps_ok:
  "json_dumps (JObj [(str ''ok'', JBool True)])
     = [123, 10, 32, 32, 34] @ str ''ok'' @ [34] @ str '': true'' @ [10, 125]"
  by (simp add: json_dumps_def newline_indent_def join_def encode_str_def escape_char_def
        str_def numeral_2_eq_2)

lemma initialized_client_simps:
  "initialized initialized_client"
  "base_url (emit e initialized_client) = Some (str ''http://localhost:5678'')"
  "trace initialized_client = []"
  by (simp_all add: initialized_client_def resolved_client_def new_client_def emit_def)

lemma body_env_post [simp]: "post_at (body_env body) n = PostResponse (plain_response 200 body)"
  by (simp add: body_env_def constant_env_def)

lemma body_env_send:
  "json_loads lib body = Inr v \<Longrightarrow>
   send_mcp_request lib (body_env body) request (emit e initialized_client)
     = (Inr v, emit (Post (mcp_url (emit e initialized_client))
                       (request_headers (emit e initialized_client)) request)
                 (emit e initialized_client))"
  using send_first_decoded[of "emit e initialized_client" "body_env body"
          "plain_response 200 body" lib v request]
  by (simp add: initialized_client_simps)

lemma messages_differ:
  "no_response_message \<noteq> unexpected_format_message"
  "tool_execution_error lib e \<noteq> unexpected_format_message"
  by (simp_all add: no_response_message_def unexpected_format_message_def
        tool_execution_error_def str_def)

text \<open>
  Claim C1, as the code has it. With the client initialized and an argument map that
  \<open>json.dumps\<close> can serialise, \<open>call_tool\<close> returns a string and never raises, whatever
  the transport returns. The string is the fixed no-response message when the response
  is \<open>None\<close> or any other false value (the empty object among them); the code and
  message of the error when the response is a non-empty object whose \<open>error\<close> member
  is an object; the pretty-printed \<open>result\<close> when the response is an object with no
  \<open>error\<close> and a \<open>result\<close>; the fixed unexpected-format message for any other response
  on which both membership tests succeed and find nothing (a non-empty object with
  neither member, a non-empty list that holds neither string, a non-empty string that
  contains neither). What is left ends in the handler of line 390: a true value that is
  not an object and on which a membership test raises or finds its marker (a number,
  \<open>True\<close>, a list or string with \<open>error\<close> or \<open>result\<close> in it) gives the tool-execution
  error of a \<open>TypeError\<close>, and an object whose \<open>error\<close> member is not an object that of
  an \<open>AttributeError\<close>. The result \<open>{"ok": true}\<close> is printed as text that contains
  \<open>"ok": true\<close>. With an argument map that \<open>json.dumps\<close> rejects, \<open>call_tool\<close> raises
  the exception of line 360 and the client is as before.
\<close>

theorem call_tool_renders_response:
  assumes "initialized s"
  shows "(serialise_arguments arguments = Inr args \<longrightarrow>
      (\<exists>out resp s'. call_tool lib env tool_name arguments s = (Inr out, s')
         \<and> send_mcp_request lib env
               (tool_request (uuid_at env (length (trace s))) tool_name (JObj args))
               (emit Uuid4 s)
             = (Inr resp, s')
         \<and> (\<not> truthy resp \<longrightarrow> out = no_response_message)
         \<and> (\<forall>kvs ekvs. resp = JObj kvs \<and> kvs \<noteq> []
                \<and> map_of kvs (str ''error'') = Some (JObj ekvs) \<longrightarrow>
              out = mcp_error_message lib
                      (case map_of ekvs (str ''code'') of
                         Some c \<Rightarrow> c
                       | None \<Rightarrow> JStr (str ''unknown''))
                      (case map_of ekvs (str ''message'') of
                         Some m \<Rightarrow> m
                       | None \<Rightarrow> JStr (str ''Unknown error'')))
         \<and> (\<forall>kvs v. resp = JObj kvs \<and> map_of kvs (str ''error'') = None
                \<and> map_of kvs (str ''result'') = Some v \<longrightarrow>
              out = json_dumps v)
         \<and> (truthy resp \<and> lacks (str ''error'') resp \<and> lacks (str ''result'') resp \<longrightarrow>
              out = unexpected_format_message)
         \<and> (truthy resp \<and> (\<forall>kvs. resp \<noteq> JObj kvs)
                \<and> \<not> (lacks (str ''error'') resp \<and> lacks (str ''result'') resp) \<longrightarrow>
              out = tool_execution_error lib TypeError)
         \<and> (\<forall>kvs ev. resp = JObj kvs \<and> map_of kvs (str ''error'') = Some ev
                \<and> (\<forall>ekvs. ev \<noteq> JObj ekvs) \<longrightarrow>
              out = tool_execution_error lib AttributeError)))
     \<and> (serialise_arguments arguments = Inl e \<longrightarrow>
          call_tool lib env tool_name arguments s = (Inl e, s))
     \<and> contains ([34] @ str ''ok'' @ [34] @ str '': true'')
          (json_dumps (JObj [(str ''ok'', JBool True)]))"
proof (intro conjI impI)
  assume a: "serialise_arguments arguments = Inr args"
  let ?rq = "tool_request (uuid_at env (length (trace s))) tool_name (JObj args)"
  obtain resp s' where t: "send_mcp_request lib env ?rq (emit Uuid4 s) = (Inr resp, s')"
    using send_mcp_request_summary[of lib env ?rq "emit Uuid4 s"] by blast
  let ?out = "case render_response lib resp of Inr out \<Rightarrow> out | Inl e \<Rightarrow> tool_execution_error lib e"
  have c: "call_tool lib env tool_name arguments s = (Inr ?out, s')"
    using call_tool_initialized[OF assms a t] .
  have r1: "\<not> truthy resp \<longrightarrow> ?out = no_response_message"
    by (simp add: render_falsy)
  have r2: "\<forall>kvs ekvs. resp = JObj kvs \<and> kvs \<noteq> []
                \<and> map_of kvs (str ''error'') = Some (JObj ekvs) \<longrightarrow>
              ?out = mcp_error_message lib
                      (case map_of ekvs (str ''code'') of
                         Some c \<Rightarrow> c
                       | None \<Rightarrow> JStr (str ''unknown''))
                      (case map_of ekvs (str ''message'') of
                         Some m \<Rightarrow> m
                       | None \<Rightarrow> JStr (str ''Unknown error''))"
    by (auto simp add: render_error)
  have r3: "\<forall>kvs v. resp = JObj kvs \<and> map_of kvs (str ''error'') = None
            \<and> map_of kvs (str ''result'') = Some v \<longrightarrow> ?out = json_dumps v"
  proof (intro allI impI)
    fix kvs v
    assume h: "resp = JObj kvs \<and> map_of kvs (str ''error'') = None
            \<and> map_of kvs (str ''result'') = Some v"
    then have "kvs \<noteq> []" by auto
    then show "?out = json_dumps v" using h by (simp add: render_result)
  qed
  have r4: "truthy resp \<and> lacks (str ''error'') resp \<and> lacks (str ''result'') resp \<longrightarrow>
              ?out = unexpected_format_message"
    by (simp add: render_other)
  have r5: "truthy resp \<and> (\<forall>kvs. resp \<noteq> JObj kvs)
                \<and> \<not> (lacks (str ''error'') resp \<and> lacks (str ''result'') resp) \<longrightarrow>
              ?out = tool_execution_error lib TypeError"
    using render_type_error[of resp lib] by auto
  have r6: "\<forall>kvs ev. resp = JObj kvs \<and> map_of kvs (str ''error'') = Some ev
                \<and> (\<forall>ekvs. ev \<noteq> JObj ekvs) \<longrightarrow>
              ?out = tool_execution_error lib AttributeError"
    by (auto simp add: render_attribute_error)
  show "\<exists>out resp s'. call_tool lib env tool_name arguments s = (Inr out, s')
         \<and> send_mcp_request lib env ?rq (emit Uuid4 s) = (Inr resp, s')
         \<and> (\<not> truthy resp \<longrightarrow> out = no_response_message)
         \<and> (\<forall>kvs ekvs. resp = JObj kvs \<and> kvs \<noteq> []
                \<and> map_of kvs (str ''error'') = Some (JObj ekvs) \<longrightarrow>
              out = mcp_error_message lib
                      (case map_of ekvs (str ''code'') of
                         Some c \<Rightarrow> c
                       | None \<Rightarrow> JStr (str ''unknown''))
                      (case map_of ekvs (str ''message'') of
                         Some m \<Rightarrow> m
                       | None \<Rightarrow> JStr (str ''Unknown error'')))
         \<and> (\<forall>kvs v. resp = JObj kvs \<and> map_of kvs (str ''error'') = None
                \<and> map_of kvs (str ''result'') = Some v \<longrightarrow>
              out = json_dumps v)
         \<and> (truthy resp \<and> lacks (str ''error'') resp \<and> lacks (str ''result'') resp \<longrightarrow>
              out = unexpected_format_message)
         \<and> (truthy resp \<and> (\<forall>kvs. resp \<noteq> JObj kvs)
                \<and> \<not> (lacks (str ''error'') resp \<and> lacks (str ''result'') resp) \<longrightarrow>
              out = tool_execution_error lib TypeError)
         \<and> (\<forall>kvs ev. resp = JObj kvs \<and> map_of kvs (str ''error'') = Some ev
                \<and> (\<forall>ekvs. ev \<noteq> JObj ekvs) \<longrightarrow>
              out = tool_execution_error lib AttributeError)"
    using c t r1 r2 r3 r4 r5 r6
    by (intro exI[of _ ?out] exI[of _ resp] exI[of _ s']) blast
next
  assume "serialise_arguments arguments = Inl e"
  then show "call_tool lib env tool_name arguments s = (Inl e, s)"
    using assms by (rule call_tool_unserialisable[rotated])
next
  show "contains ([34] @ str ''ok'' @ [34] @ str '': true'')
          (json_dumps (JObj [(str ''ok'', JBool True)]))"
    unfolding dumps_ok by (simp add: str_def startswith_def)
qed

theorem call_tool_renders_response_witness:
  "fst (call_tool demo_lib (body_env (str ''payload'')) (str ''Find_Emails'') []
          initialized_client)
     = Inr ([123, 10, 32, 32, 34] @ str ''ok'' @ [34] @ str '': true'' @ [10, 125])"
  using call_tool_renders_response[OF initialized_client_simps(1),
          of "[]" "[]" demo_lib "body_env (str ''payload'')" "str ''Find_Emails''" TypeError]
        body_env_send[OF demo_lib_loads(1), of _ Uuid4]
  by (auto simp add: ok_payload_def dumps_ok)

text \<open>
  The claim C1 read literally fails in three places. On the empty object: the transport
  returns \<open>{}\<close>, which is not \<open>None\<close> and has neither an \<open>error\<close> nor a \<open>result\<close>,
  and \<open>call_tool\<close> answers with the no-response message, not the unexpected-format
  one. On a number: the transport returns \<open>5\<close>, the test \<open>"error" in 5\<close> raises, and
  \<open>call_tool\<close> answers with the tool-execution error, not the unexpected-format
  message. On an argument map with a value that \<open>json.dumps\<close> rejects: \<open>call_tool\<close>
  raises \<open>TypeError\<close>.
\<close>

theorem call_tool_dispatch_counterexamples:
  "fst (send_mcp_request demo_lib (body_env (str ''{}''))
          (tool_request (uuid_at (body_env (str ''{}'')) 0) (str ''Find_Emails'') (JObj []))
          (emit Uuid4 initialized_client))
     = Inr (JObj [])
   \<and> JObj [] \<noteq> JNull
   \<and> fst (call_tool demo_lib (body_env (str ''{}'')) (str ''Find_Emails'') []
            initialized_client)
     = Inr no_response_message
   \<and> no_response_message \<noteq> unexpected_format_message
   \<and> fst (send_mcp_request number_lib (body_env (str ''5''))
          (tool_request (uuid_at (body_env (str ''5'')) 0) (str ''Find_Emails'') (JObj []))
          (emit Uuid4 initialized_client))
     = Inr (JInt 5)
   \<and> fst (call_tool number_lib (body_env (str ''5'')) (str ''Find_Emails'') []
            initialized_client)
     = Inr (tool_execution_error number_lib TypeError)
   \<and> tool_execution_error number_lib TypeError \<noteq> unexpected_format_message
   \<and> fst (call_tool demo_lib (body_env (str ''payload'')) (str ''Find_Emails'')
            [(str ''attachment'', Unserialisable)] initialized_client)
     = Inl TypeError"
proof -
  let ?e = "body_env (str ''{}'')"
  let ?rq = "tool_request (uuid_at ?e 0) (str ''Find_Emails'') (JObj [])"
  let ?s1 = "emit (Post (mcp_url (emit Uuid4 initialized_client))
                        (request_headers (emit Uuid4 initialized_client)) ?rq)
                  (emit Uuid4 initialized_client)"
  have a: "send_mcp_request demo_lib ?e ?rq (emit Uuid4 initialized_client)
             = (Inr (JObj []), ?s1)"
    by (rule body_env_send[OF demo_lib_loads(2)])
  have b: "call_tool demo_lib ?e (str ''Find_Emails'') [] initialized_client
             = (Inr no_response_message, ?s1)"
    using call_tool_initialized[of initialized_client "[]" "[]" demo_lib ?e
            "str ''Find_Emails''" "JObj []", OF initialized_client_simps(1)] a
    by (simp add: initialized_client_simps render_falsy)
  let ?e5 = "body_env (str ''5'')"
  let ?rq5 = "tool_request (uuid_at ?e5 0) (str ''Find_Emails'') (JObj [])"
  let ?s5 = "emit (Post (mcp_url (emit Uuid4 initialized_client))
                        (request_headers (emit Uuid4 initialized_client)) ?rq5)
                  (emit Uuid4 initialized_client)"
  have l5: "json_loads number_lib (str ''5'') = Inr (JInt 5)"
    by (simp add: number_lib_def table_lib_def)
  have a5: "send_mcp_request number_lib ?e5 ?rq5 (emit Uuid4 initialized_client)
             = (Inr (JInt 5), ?s5)"
    by (rule body_env_send[OF l5])
  have r5: "render_response number_lib (JInt 5) = Inl TypeError"
    by (simp add: render_response_def ebind_def)
  have b5: "call_tool number_lib ?e5 (str ''Find_Emails'') [] initialized_client
             = (Inr (tool_execution_error number_lib TypeError), ?s5)"
    using call_tool_initialized[of initialized_client "[]" "[]" number_lib ?e5
            "str ''Find_Emails''" "JInt 5", OF initialized_client_simps(1)] a5 r5
    by (simp add: initialized_client_simps)
  have u: "call_tool demo_lib (body_env (str ''payload'')) (str ''Find_Emails'')
            [(str ''attachment'', Unserialisable)] initialized_client
           = (Inl TypeError, initialized_client)"
    by (rule call_tool_unserialisable) (simp_all add: initialized_client_simps)
  show ?thesis using a b a5 b5 u by (simp add: messages_differ)
qed

section \<open>Properties of the session state machine\<close>

lemma emit_fields [simp]:
  "base_url (emit e s) = base_url s" "endpoint_path (emit e s) = endpoint_path s"
  "protocol_version (emit e s) = protocol_version s" "session_id (emit e s) = session_id s"
  "initialized (emit e s) = initialized s" "available_tools (emit e s) = available_tools s"
  "server_capabilities (emit e s) = server_capabilities s"
  by (simp_all add: emit_def)

lemma adopt_fields [simp]:
  "base_url (adopt_session r s) = base_url s" "endpoint_path (adopt_session r s) = endpoint_path s"
  "protocol_version (adopt_session r s) = protocol_version s"
  "trace (adopt_session r s) = trace s"
  "initialized (adopt_session r s) = initialized s"
  "available_tools (adopt_session r s) = available_tools s"
  "server_capabilities (adopt_session r s) = server_capabilities s"
  by (simp_all add: adopt_session_def split: option.splits)

lemma method_of_requests [simp]:
  "method_of (Post url hs (init_request uuid version)) = [str ''initialize'']"
  "method_of (Post url hs initialized_notification) = [str ''notifications/initialized'']"
  "method_of (Post url hs (tools_request uuid)) = [str ''tools/list'']"
  "method_of (Post url hs (tool_request uuid tool_name arguments)) = [str ''tools/call'']"
  by (simp_all add: init_request_def initialized_notification_def tools_request_def
        tool_request_def)

declare method_of.simps(1) [simp del]

lemma build_url_nonempty [simp]: "build_url host port path \<noteq> []"
  by (simp add: build_url_def str_def)

lemma docker_hosts_first: "DOCKER_HOSTS = str ''host.docker.internal'' # tl DOCKER_HOSTS"
  by (simp add: DOCKER_HOSTS_def)

lemma lacks_py_in: "lacks k v \<Longrightarrow> py_in k v = Inr False"
  by (cases v) (simp_all add: lacks_def in_keys)

lemma fetch_zero_tools:
  assumes "send_mcp_request lib env (tools_request (uuid_at env (length (trace s))))
             (emit Uuid4 s) = (Inr response, s')"
    and "zero_tools response"
  shows "fetch_available_tools lib env s = (Inr True, s'\<lparr>available_tools := predefined_tools\<rparr>)"
proof -
  have "\<not> truthy response \<or> lacks (str ''result'') response
      \<or> (\<exists>kvs rkvs. response = JObj kvs \<and> map_of kvs (str ''result'') = Some (JObj rkvs)
            \<and> \<not> truthy (case map_of rkvs (str ''tools'') of None \<Rightarrow> JArr [] | Some x \<Rightarrow> x))"
    using assms(2) by (auto simp add: zero_tools_def split: json.splits option.splits)
  then consider (falsy) "\<not> truthy response"
    | (lacks) "truthy response" "lacks (str ''result'') response"
    | (empty) kvs rkvs where "truthy response" "response = JObj kvs"
        "map_of kvs (str ''result'') = Some (JObj rkvs)"
        "\<not> truthy (case map_of rkvs (str ''tools'') of None \<Rightarrow> JArr [] | Some x \<Rightarrow> x)"
    by blast
  then show ?thesis
  proof cases
    case falsy
    then show ?thesis
      using assms(1)
      by (simp add: fetch_available_tools_def ptry_def pbind_run use_predefined_tools_def
            pret_def)
  next
    case lacks
    then show ?thesis
      using assms(1) lacks_py_in[OF lacks(2)]
      by (simp add: fetch_available_tools_def ptry_def pbind_run use_predefined_tools_def
            pret_def)
  next
    case empty
    then show ?thesis
      using assms(1)
      by (simp add: fetch_available_tools_def ptry_def pbind_run use_predefined_tools_def
            pret_def in_keys)
  qed
qed

lemma fetch_lookup_raises:
  assumes "send_mcp_request lib env (tools_request (uuid_at env (length (trace s))))
             (emit Uuid4 s) = (Inr response, s')"
    and "tools_lookup_raises response"
  shows "fetch_available_tools lib env s = (Inr False, s')"
proof (cases response)
  case (JObj kvs)
  then obtain other where o: "map_of kvs (str ''result'') = Some other" "\<forall>rkvs. other \<noteq> JObj rkvs"
    using assms(2) by (auto simp add: tools_lookup_raises_def split: option.splits json.splits)
  have "py_get other (str ''tools'') (JArr []) = Inl AttributeError"
    using o(2) by (cases other) simp_all
  then show ?thesis
    using assms JObj o(1)
    by (simp add: fetch_available_tools_def ptry_def pbind_run pret_def in_keys
          tools_lookup_raises_def)
qed (use assms in \<open>simp_all add: fetch_available_tools_def ptry_def pbind_run pret_def
       tools_lookup_raises_def\<close>)

lemma finish_handshake_zero_tools:
  assumes "send_mcp_request lib env initialized_notification (emit (Sleep (1 / 10)) s)
             = (Inr ack, s1)"
    and "send_mcp_request lib env (tools_request (uuid_at env (length (trace s1))))
             (emit Uuid4 s1) = (Inr response, s2)"
    and "zero_tools response"
  shows "finish_handshake lib env s
           = (Inr True, s2\<lparr>available_tools := predefined_tools, initialized := True\<rparr>)"
  using assms(1) fetch_zero_tools[OF assms(2) assms(3)]
  by (simp add: finish_handshake_def pbind_run pret_def)

lemma finish_handshake_lookup_raises:
  assumes "send_mcp_request lib env initialized_notification (emit (Sleep (1 / 10)) s)
             = (Inr ack, s1)"
    and "send_mcp_request lib env (tools_request (uuid_at env (length (trace s1))))
             (emit Uuid4 s1) = (Inr response, s2)"
    and "tools_lookup_raises response"
  shows "finish_handshake lib env s = (Inr True, s2\<lparr>initialized := True\<rparr>)"
  using assms(1) fetch_lookup_raises[OF assms(2) assms(3)]
  by (simp add: finish_handshake_def pbind_run pret_def)

lemma initialize_steps:
  assumes "test_n8n_connectivity env s = (Inr (True, url), s1)"
    and "send_mcp_request lib env
           (init_request (uuid_at env (length (trace s1))) (protocol_version s1))
           (emit Uuid4 (s1\<lparr>base_url := Some url\<rparr>)) = (Inr init_response, s2)"
    and "read_init_response init_response s2 = (Inr True, s3)"
    and "finish_handshake lib env s3 = (Inr ok, s4)"
  shows "initialize lib env s = (Inr ok, s4)"
  using assms
  by (simp add: initialize_def ptry_def pbind_run emit_def)

lemma predefined_tool_names:
  "get_available_tools (s\<lparr>available_tools := predefined_tools, initialized := b\<rparr>)
     = Inr [JStr (str ''Find_Emails''), JStr (str ''Send_Email''), JStr (str ''Create_an_event''),
            JStr (str ''Find_single_event''), JStr (str ''Find_multiple_events''),
            JStr (str ''Update_event'')]"
  by (simp add: get_available_tools_def predefined_tools_def tool_descriptor_def ebind_def)

lemma resolve_first:
  assumes "probe_at env (length (trace s)) = ProbeStatus 200"
  shows "test_n8n_connectivity env s
           = (Inr (True, build_url (str ''host.docker.internal'') DEFAULT_PORT []),
              emit (probe_url (str ''host.docker.internal'')) s)"
  unfolding test_n8n_connectivity_def
  using assms by (subst docker_hosts_first) (simp add: probe_hosts_step)

lemma read_init_result:
  assumes "map_of rkvs (str ''serverInfo'') = None"
  shows "read_init_response (JObj [(str ''result'', JObj rkvs)]) s
           = (Inr True,
              s\<lparr>server_capabilities :=
                   (case map_of rkvs (str ''capabilities'') of None \<Rightarrow> JObj [] | Some c \<Rightarrow> c)\<rparr>)"
  using assms by (simp add: read_init_response_def pret_def pbind_def plift_def update_def)

lemma accepted_send:
  assumes "accepts lib env r rkvs" and "truthy_opt (base_url s)"
  shows "send_mcp_request lib env request s
           = (Inr (JObj [(str ''result'', JObj rkvs)]),
              adopt_session r (emit (Post (mcp_url s) (request_headers s) request) s))"
  using assms send_first_decoded[of s env r lib "JObj [(str ''result'', JObj rkvs)]" request]
  by (simp add: accepts_def)

lemma accepted_zero: "accepts lib env r rkvs \<Longrightarrow> zero_tools (JObj [(str ''result'', JObj rkvs)])"
  by (simp add: accepts_def zero_tools_def)

lemma accepted_handshake_steps:
  assumes a: "accepts lib env r rkvs"
  obtains url s1 init_response s2 s3 ack s4 tools_response s5 evs where
    "test_n8n_connectivity env s = (Inr (True, url), s1)"
    "send_mcp_request lib env
       (init_request (uuid_at env (length (trace s1))) (protocol_version s1))
       (emit Uuid4 (s1\<lparr>base_url := Some url\<rparr>)) = (Inr init_response, s2)"
    "read_init_response init_response s2 = (Inr True, s3)"
    "send_mcp_request lib env initialized_notification (emit (Sleep (1 / 10)) s3)
       = (Inr ack, s4)"
    "send_mcp_request lib env (tools_request (uuid_at env (length (trace s4))))
       (emit Uuid4 s4) = (Inr tools_response, s5)"
    "zero_tools tools_response"
    "trace s5 = trace s @ probe_url (str ''host.docker.internal'') # evs"
    "post_methods evs = handshake_methods"
    "truthy_opt (base_url s5)"
proof -
  let ?url = "build_url (str ''host.docker.internal'') DEFAULT_PORT []"
  let ?resp = "JObj [(str ''result'', JObj rkvs)]"
  let ?s1 = "emit (probe_url (str ''host.docker.internal'')) s"
  let ?s1u = "emit Uuid4 (?s1\<lparr>base_url := Some ?url\<rparr>)"
  let ?rq1 = "init_request (uuid_at env (length (trace ?s1))) (protocol_version ?s1)"
  let ?s2 = "adopt_session r (emit (Post (mcp_url ?s1u) (request_headers ?s1u) ?rq1) ?s1u)"
  let ?s3 = "?s2\<lparr>server_capabilities :=
                   (case map_of rkvs (str ''capabilities'') of None \<Rightarrow> JObj [] | Some c \<Rightarrow> c)\<rparr>"
  let ?s3s = "emit (Sleep (1 / 10)) ?s3"
  let ?s4 = "adopt_session r
               (emit (Post (mcp_url ?s3s) (request_headers ?s3s) initialized_notification) ?s3s)"
  let ?s4u = "emit Uuid4 ?s4"
  let ?rq3 = "tools_request (uuid_at env (length (trace ?s4)))"
  let ?s5 = "adopt_session r (emit (Post (mcp_url ?s4u) (request_headers ?s4u) ?rq3) ?s4u)"
  let ?evs = "[Uuid4, Post (mcp_url ?s1u) (request_headers ?s1u) ?rq1, Sleep (1 / 10),
               Post (mcp_url ?s3s) (request_headers ?s3s) initialized_notification, Uuid4,
               Post (mcp_url ?s4u) (request_headers ?s4u) ?rq3]"
  have p: "probe_at env (length (trace s)) = ProbeStatus 200"
    and si: "map_of rkvs (str ''serverInfo'') = None"
    using a by (simp_all add: accepts_def)
  have b1: "truthy_opt (base_url ?s1u)" by (simp add: emit_def)
  have b3: "truthy_opt (base_url ?s3s)" by (simp add: emit_def)
  have b4: "truthy_opt (base_url ?s4u)" by (simp add: emit_def)
  have h1: "test_n8n_connectivity env s = (Inr (True, ?url), ?s1)"
    by (rule resolve_first[OF p])
  have h2: "send_mcp_request lib env ?rq1 ?s1u = (Inr ?resp, ?s2)"
    by (rule accepted_send[OF a b1])
  have h3: "read_init_response ?resp ?s2 = (Inr True, ?s3)"
    by (rule read_init_result[OF si])
  have h4: "send_mcp_request lib env initialized_notification ?s3s = (Inr ?resp, ?s4)"
    by (rule accepted_send[OF a b3])
  have h5: "send_mcp_request lib env ?rq3 ?s4u = (Inr ?resp, ?s5)"
    by (rule accepted_send[OF a b4])
  have t: "trace ?s5 = trace s @ probe_url (str ''host.docker.internal'') # ?evs"
    by (simp add: emit_def)
  have m: "post_methods ?evs = handshake_methods"
    by (simp add: handshake_methods_def)
  have b5: "truthy_opt (base_url ?s5)" by (simp add: emit_def)
  show ?thesis
    using that[OF h1 h2 h3 h4 h5 accepted_zero[OF a] t m b5] .
qed

lemma demo_accepts:
  "accepts demo_lib accepting_env (plain_response 200 (str ''payload'')) [(str ''ok'', JBool True)]"
  by (simp add: accepts_def accepting_env_def constant_env_def demo_lib_loads ok_payload_def)

text \<open>
  Claim C5, as the code has it. Take an invocation of \<open>initialize\<close> in which the
  resolver finds a host, the \<open>initialize\<close> request is answered with a result, and the
  notification and the \<open>tools/list\<close> request have been sent. When the \<open>tools/list\<close>
  answer yields no tools and is read without an exception (no answer or another false
  value, an object, list or string without a \<open>result\<close>, a \<open>result\<close> object whose
  \<open>tools\<close> is missing, the empty list or another false value), the invocation returns
  \<open>True\<close>, \<open>initialized\<close> is set and \<open>available_tools\<close> is the list of the six
  predefined descriptors, whose names are \<open>Find_Emails\<close>, \<open>Send_Email\<close>,
  \<open>Create_an_event\<close>, \<open>Find_single_event\<close>, \<open>Find_multiple_events\<close> and
  \<open>Update_event\<close>. When the look-up of the tools raises (the answer is a number or
  \<open>True\<close>, a list or string with \<open>result\<close> in it, or an object whose \<open>result\<close> is not
  an object), the invocation returns \<open>True\<close> and \<open>initialized\<close> is set as well, but
  \<open>available_tools\<close> is left as it was.
\<close>

theorem zero_tools_fall_back_to_predefined:
  assumes "test_n8n_connectivity env s = (Inr (True, url), s1)"
    and "send_mcp_request lib env
           (init_request (uuid_at env (length (trace s1))) (protocol_version s1))
           (emit Uuid4 (s1\<lparr>base_url := Some url\<rparr>)) = (Inr init_response, s2)"
    and "read_init_response init_response s2 = (Inr True, s3)"
    and "send_mcp_request lib env initialized_notification (emit (Sleep (1 / 10)) s3)
           = (Inr ack, s4)"
    and "send_mcp_request lib env (tools_request (uuid_at env (length (trace s4))))
           (emit Uuid4 s4) = (Inr tools_response, s5)"
  shows "(zero_tools tools_response \<longrightarrow>
            initialize lib env s
              = (Inr True, s5\<lparr>available_tools := predefined_tools, initialized := True\<rparr>)
          \<and> get_available_tools (s5\<lparr>available_tools := predefined_tools, initialized := True\<rparr>)
              = Inr [JStr (str ''Find_Emails''), JStr (str ''Send_Email''),
                     JStr (str ''Create_an_event''), JStr (str ''Find_single_event''),
                     JStr (str ''Find_multiple_events''), JStr (str ''Update_event'')])
       \<and> (tools_lookup_raises tools_response \<longrightarrow>
            initialize lib env s = (Inr True, s5\<lparr>initialized := True\<rparr>))"
proof (intro conjI impI)
  assume z: "zero_tools tools_response"
  show "initialize lib env s
          = (Inr True, s5\<lparr>available_tools := predefined_tools, initialized := True\<rparr>)"
    using initialize_steps[OF assms(1) assms(2) assms(3)
            finish_handshake_zero_tools[OF assms(4) assms(5) z]] .
next
  show "get_available_tools (s5\<lparr>available_tools := predefined_tools, initialized := True\<rparr>)
          = Inr [JStr (str ''Find_Emails''), JStr (str ''Send_Email''),
                 JStr (str ''Create_an_event''), JStr (str ''Find_single_event''),
                 JStr (str ''Find_multiple_events''), JStr (str ''Update_event'')]"
    by (rule predefined_tool_names)
next
  assume z: "tools_lookup_raises tools_response"
  show "initialize lib env s = (Inr True, s5\<lparr>initialized := True\<rparr>)"
    using initialize_steps[OF assms(1) assms(2) assms(3)
            finish_handshake_lookup_raises[OF assms(4) assms(5) z]] .
qed

theorem zero_tools_fall_back_to_predefined_witness:
  "fst (initialize demo_lib accepting_env fresh_client) = Inr True
   \<and> available_tools (snd (initialize demo_lib accepting_env fresh_client)) = predefined_tools
   \<and> initialized (snd (initialize demo_lib accepting_env fresh_client))
   \<and> get_available_tools (snd (initialize demo_lib accepting_env fresh_client))
        = Inr [JStr (str ''Find_Emails''), JStr (str ''Send_Email''),
               JStr (str ''Create_an_event''), JStr (str ''Find_single_event''),
               JStr (str ''Find_multiple_events''), JStr (str ''Update_event'')]"
proof -
  obtain url s1 init_response s2 s3 ack s4 tools_response s5 evs where
    h: "test_n8n_connectivity accepting_env fresh_client = (Inr (True, url), s1)"
    "send_mcp_request demo_lib accepting_env
       (init_request (uuid_at accepting_env (length (trace s1))) (protocol_version s1))
       (emit Uuid4 (s1\<lparr>base_url := Some url\<rparr>)) = (Inr init_response, s2)"
    "read_init_response init_response s2 = (Inr True, s3)"
    "send_mcp_request demo_lib accepting_env initialized_notification (emit (Sleep (1 / 10)) s3)
       = (Inr ack, s4)"
    "send_mcp_request demo_lib accepting_env
       (tools_request (uuid_at accepting_env (length (trace s4))))
       (emit Uuid4 s4) = (Inr tools_response, s5)"
    and z: "zero_tools tools_response"
    and t: "trace s5 = trace fresh_client @ probe_url (str ''host.docker.internal'') # evs"
      "post_methods evs = handshake_methods" "truthy_opt (base_url s5)"
    by (rule accepted_handshake_steps[OF demo_accepts, of fresh_client])
  have "initialize demo_lib accepting_env fresh_client
          = (Inr True, s5\<lparr>available_tools := predefined_tools, initialized := True\<rparr>)
       \<and> get_available_tools (s5\<lparr>available_tools := predefined_tools, initialized := True\<rparr>)
          = Inr [JStr (str ''Find_Emails''), JStr (str ''Send_Email''),
                 JStr (str ''Create_an_event''), JStr (str ''Find_single_event''),
                 JStr (str ''Find_multiple_events''), JStr (str ''Update_event'')]"
    using zero_tools_fall_back_to_predefined[OF h] z by blast
  then show ?thesis by simp
qed

lemma fresh_client_simps [simp]:
  "trace fresh_client = []" "initialized fresh_client = False"
  "available_tools fresh_client = JArr []"
  by (simp_all add: fresh_client_def new_client_def)

lemma listing_lib_loads:
  "json_loads listing_lib (str ''payload'') = Inr (JObj [(str ''result'', JObj [(str ''ok'', JBool True)])])"
  "json_loads listing_lib null_result_body = Inr (JObj [(str ''result'', JNull)])"
  "json_loads listing_lib (str ''5'') = Inr (JInt 5)"
  by (simp_all add: listing_lib_def table_lib_def null_result_body_def str_def)

lemma listing_send:
  assumes "truthy_opt (base_url s)"
    and "json_loads listing_lib (if length (trace s) = 6 then body else str ''payload'') = Inr v"
  shows "send_mcp_request listing_lib (tools_answer_env body) request s
           = (Inr v, emit (Post (mcp_url s) (request_headers s) request) s)"
  using assms
    send_first_decoded[of s "tools_answer_env body"
      "plain_response 200 (if length (trace s) = 6 then body else str ''payload'')"
      listing_lib v request]
  by (simp add: tools_answer_env_def)

lemma listing_handshake:
  assumes l: "json_loads listing_lib body = Inr v" and z: "tools_lookup_raises v"
  shows "\<exists>s'. initialize listing_lib (tools_answer_env body) fresh_client = (Inr True, s')
           \<and> initialized s' \<and> available_tools s' = JArr []
           \<and> post_methods (trace s') = handshake_methods"
proof -
  let ?env = "tools_answer_env body"
  let ?url = "build_url (str ''host.docker.internal'') DEFAULT_PORT []"
  let ?resp = "JObj [(str ''result'', JObj [(str ''ok'', JBool True)])]"
  let ?s1 = "emit (probe_url (str ''host.docker.internal'')) fresh_client"
  let ?s1u = "emit Uuid4 (?s1\<lparr>base_url := Some ?url\<rparr>)"
  let ?rq1 = "init_request (uuid_at ?env (length (trace ?s1))) (protocol_version ?s1)"
  let ?s2 = "emit (Post (mcp_url ?s1u) (request_headers ?s1u) ?rq1) ?s1u"
  let ?s3 = "?s2\<lparr>server_capabilities := JObj []\<rparr>"
  let ?s3s = "emit (Sleep (1 / 10)) ?s3"
  let ?s4 = "emit (Post (mcp_url ?s3s) (request_headers ?s3s) initialized_notification) ?s3s"
  let ?s4u = "emit Uuid4 ?s4"
  let ?rq3 = "tools_request (uuid_at ?env (length (trace ?s4)))"
  let ?s5 = "emit (Post (mcp_url ?s4u) (request_headers ?s4u) ?rq3) ?s4u"
  have p: "probe_at ?env (length (trace fresh_client)) = ProbeStatus 200"
    by (simp add: tools_answer_env_def)
  have h1: "test_n8n_connectivity ?env fresh_client = (Inr (True, ?url), ?s1)"
    by (rule resolve_first[OF p])
  have h2: "send_mcp_request listing_lib ?env ?rq1 ?s1u = (Inr ?resp, ?s2)"
    by (rule listing_send) (simp_all add: listing_lib_loads)
  have h3: "read_init_response ?resp ?s2 = (Inr True, ?s3)"
    using read_init_result[of "[(str ''ok'', JBool True)]" ?s2] by simp
  have h4: "send_mcp_request listing_lib ?env initialized_notification ?s3s = (Inr ?resp, ?s4)"
    by (rule listing_send) (simp_all add: listing_lib_loads)
  have h5: "send_mcp_request listing_lib ?env ?rq3 ?s4u = (Inr v, ?s5)"
    by (rule listing_send) (simp_all add: l)
  have i: "initialize listing_lib ?env fresh_client = (Inr True, ?s5\<lparr>initialized := True\<rparr>)"
    using initialize_steps[OF h1 h2 h3 finish_handshake_lookup_raises[OF h4 h5 z]] .
  have m: "post_methods (trace (?s5\<lparr>initialized := True\<rparr>)) = handshake_methods"
    by (simp add: handshake_methods_def probe_url_def)
  show ?thesis
    using i m by simp
qed

text \<open>
  The claim C5 read literally fails when the \<open>tools/list\<close> answer yields no tools in a
  way that makes the look-up raise. A new client runs the handshake against a server
  that answers the \<open>tools/list\<close> request with \<open>{"result": null}\<close>: the three
  requests are sent, \<open>initialize\<close> returns \<open>True\<close> and \<open>initialized\<close> is set, but
  \<open>available_tools\<close> is the empty list it was and not the six predefined descriptors.
  The same happens when the answer is the number \<open>5\<close>, a response without a
  \<open>result\<close>.
\<close>

theorem unreadable_listing_gives_no_fallback:
  "json_loads listing_lib null_result_body = Inr (JObj [(str ''result'', JNull)])
   \<and> fst (initialize listing_lib (tools_answer_env null_result_body) fresh_client) = Inr True
   \<and> initialized (snd (initialize listing_lib (tools_answer_env null_result_body) fresh_client))
   \<and> post_methods (trace (snd (initialize listing_lib (tools_answer_env null_result_body)
        fresh_client))) = handshake_methods
   \<and> available_tools (snd (initialize listing_lib (tools_answer_env null_result_body)
        fresh_client)) = JArr []
   \<and> json_loads listing_lib (str ''5'') = Inr (JInt 5)
   \<and> fst (initialize listing_lib (tools_answer_env (str ''5'')) fresh_client) = Inr True
   \<and> available_tools (snd (initialize listing_lib (tools_answer_env (str ''5''))
        fresh_client)) = JArr []
   \<and> JArr [] \<noteq> predefined_tools"
proof -
  have z1: "tools_lookup_raises (JObj [(str ''result'', JNull)])"
    by (simp add: tools_lookup_raises_def)
  have z2: "tools_lookup_raises (JInt 5)"
    by (simp add: tools_lookup_raises_def)
  have p: "JArr [] \<noteq> predefined_tools"
    by (simp add: predefined_tools_def)
  show ?thesis
    using listing_handshake[OF listing_lib_loads(2) z1] listing_handshake[OF listing_lib_loads(3) z2]
      p listing_lib_loads
    by auto
qed

lemma accepted_initialize:
  assumes a: "accepts lib env r rkvs"
  shows "\<exists>s' evs. initialize lib env s = (Inr True, s')
           \<and> trace s' = trace s @ probe_url (str ''host.docker.internal'') # evs
           \<and> post_methods evs = handshake_methods
           \<and> available_tools s' = predefined_tools \<and> initialized s'
           \<and> truthy_opt (base_url s')"
proof -
  obtain url s1 init_response s2 s3 ack s4 tools_response s5 evs where
    h: "test_n8n_connectivity env s = (Inr (True, url), s1)"
    "send_mcp_request lib env
       (init_request (uuid_at env (length (trace s1))) (protocol_version s1))
       (emit Uuid4 (s1\<lparr>base_url := Some url\<rparr>)) = (Inr init_response, s2)"
    "read_init_response init_response s2 = (Inr True, s3)"
    and h4: "send_mcp_request lib env initialized_notification (emit (Sleep (1 / 10)) s3)
       = (Inr ack, s4)"
    and h5: "send_mcp_request lib env (tools_request (uuid_at env (length (trace s4))))
       (emit Uuid4 s4) = (Inr tools_response, s5)"
    and z: "zero_tools tools_response"
    and t: "trace s5 = trace s @ probe_url (str ''host.docker.internal'') # evs"
      "post_methods evs = handshake_methods" "truthy_opt (base_url s5)"
    by (rule accepted_handshake_steps[OF a, of s])
  have "initialize lib env s
          = (Inr True, s5\<lparr>available_tools := predefined_tools, initialized := True\<rparr>)"
    using initialize_steps[OF h finish_handshake_zero_tools[OF h4 h5 z]] .
  then show ?thesis using t by simp
qed

lemma probe_is_no_request [simp]: "method_of (probe_url host) = []"
  by (simp add: probe_url_def)

lemma accepted_initialize_all:
  assumes a: "accepts lib env r rkvs"
  shows "\<exists>s' evs. initialize_all lib env n s = (Inr (replicate n True), s')
           \<and> trace s' = trace s @ evs
           \<and> post_methods evs = concat (replicate n handshake_methods)
           \<and> (0 < n \<longrightarrow> initialized s')"
proof (induction n arbitrary: s)
  case 0
  show ?case by (simp add: pret_def)
next
  case (Suc n)
  obtain s1 evs1 where i: "initialize lib env s = (Inr True, s1)"
    "trace s1 = trace s @ probe_url (str ''host.docker.internal'') # evs1"
    "post_methods evs1 = handshake_methods" "initialized s1"
    using accepted_initialize[OF a, of s] by blast
  obtain s' evs where r: "initialize_all lib env n s1 = (Inr (replicate n True), s')"
    "trace s' = trace s1 @ evs" "post_methods evs = concat (replicate n handshake_methods)"
    "0 < n \<longrightarrow> initialized s'"
    using Suc.IH[of s1] by blast
  have c: "initialize_all lib env (Suc n) s = (Inr (replicate (Suc n) True), s')"
    using i(1) r(1) by (simp add: pbind_run pret_def)
  have t: "trace s' = trace s @ (probe_url (str ''host.docker.internal'') # evs1 @ evs)"
    using i(2) r(2) by simp
  have m: "post_methods (probe_url (str ''host.docker.internal'') # evs1 @ evs)
             = concat (replicate (Suc n) handshake_methods)"
    using i(3) r(3) by simp
  have f: "initialized s'"
  proof (cases n)
    case 0
    then show ?thesis using r(1) i(4) by (simp add: pret_def)
  next
    case (Suc k)
    then show ?thesis using r(4) by simp
  qed
  show ?case using c t m f by blast
qed

text \<open>
  Claim C6, as the code has it. The lock makes the invocations of \<open>initialize\<close> that
  are in flight together run one after the other, each on the state the one before
  left. The body does not look at \<open>initialized\<close>, so each invocation runs its own
  handshake: against a server that accepts the handshake, \<open>n\<close> invocations all return
  \<open>True\<close> and send \<open>n\<close> times the sequence of an \<open>initialize\<close> request, an
  \<open>initialized\<close> notification and a \<open>tools/list\<close> request, whatever the state they
  start from.
\<close>

theorem locked_initialize_runs_every_handshake:
  assumes "accepts lib env r rkvs"
  shows "\<exists>s' evs. initialize_all lib env n s = (Inr (replicate n True), s')
           \<and> trace s' = trace s @ evs
           \<and> post_methods evs = concat (replicate n handshake_methods)
           \<and> (0 < n \<longrightarrow> initialized s')"
  using accepted_initialize_all[OF assms] .

theorem locked_initialize_runs_every_handshake_witness:
  "fst (initialize_all demo_lib accepting_env 3 fresh_client) = Inr [True, True, True]
   \<and> post_methods (trace (snd (initialize_all demo_lib accepting_env 3 fresh_client)))
       = handshake_methods @ handshake_methods @ handshake_methods
   \<and> initialized (snd (initialize_all demo_lib accepting_env 3 fresh_client))"
  using locked_initialize_runs_every_handshake[OF demo_accepts, of 3 fresh_client]
  by (auto simp add: numeral_3_eq_3)

text \<open>
  The claim C6 read literally fails for two invocations. Both start on a new client,
  whose \<open>initialized\<close> is false, against a server that accepts the handshake; the lock
  lets the second run after the first, and the second sends the three requests of the
  handshake again: six requests in all, not three.
\<close>

theorem second_initialize_repeats_handshake:
  "\<not> initialized fresh_client
   \<and> fst (initialize_all demo_lib accepting_env 2 fresh_client) = Inr [True, True]
   \<and> post_methods (trace (snd (initialize_all demo_lib accepting_env 2 fresh_client)))
       = [str ''initialize'', str ''notifications/initialized'', str ''tools/list'',
          str ''initialize'', str ''notifications/initialized'', str ''tools/list'']
   \<and> post_methods (trace (snd (initialize demo_lib accepting_env fresh_client)))
       = [str ''initialize'', str ''notifications/initialized'', str ''tools/list'']"
  using accepted_initialize_all[OF demo_accepts, of 2 fresh_client]
    accepted_initialize[OF demo_accepts, of fresh_client]
  by (auto simp add: numeral_2_eq_2 handshake_methods_def)






lemma error_is_not_result [simp]: "str ''error'' \<noteq> str ''result''"
  by simp




end
